theory Spec2Isabelle
  imports Main "HOL-Library.Sublist" "HOL-Library.Word"
begin

section \<open>Cortex Analyst chat application (demo.py)\<close>

text \<open>
  A shallow embedding of \<^verbatim>\<open>src/demo.py\<close>. The Streamlit session state, the set of
  widgets drawn in a script run, the log of requests sent to the Analyst API and to the
  warehouse, and the store of \<^verbatim>\<open>st.cache_data\<close> are one explicit state record that every
  function takes and returns. A Python exception and the \<^verbatim>\<open>st.rerun()\<close> that ends a script
  run are outcomes beside the normal return.

  Python strings are written as their UTF-8 bytes, so that the non-ASCII characters of the
  source's literals are the bytes of the source file; concatenation and containment of
  strings are the same on code points and on well-formed UTF-8.
\<close>

subsection \<open>Python values\<close>

text \<open>
  The values \<^verbatim>\<open>json.loads\<close> produces and the code passes around: \<^verbatim>\<open>None\<close>, booleans, integers,
  floats (their 64 bits, which the code never inspects), strings, lists and dictionaries
  (in insertion order, the first entry of a key is the one looked up).
\<close>

datatype json =
    JNull
  | JBool bool
  | JInt int
  | JFloat "64 word"
  | JStr string
  | JArr "json list"
  | JObj "(string \<times> json) list"

datatype py_error =
    KeyError string
  | TypeError
  | AttributeError string
  | JSONDecodeError
  | OtherError string

text \<open>What a call does: return a value, raise, or end the script run with \<^verbatim>\<open>st.rerun()\<close>.\<close>

datatype 'a outcome = Return 'a | Raise py_error | Rerun

definition and_then ::
  "('s \<Rightarrow> 'a outcome \<times> 's) \<Rightarrow> ('a \<Rightarrow> 's \<Rightarrow> 'b outcome \<times> 's) \<Rightarrow> 's \<Rightarrow> 'b outcome \<times> 's" where
  "and_then m f s =
     (case m s of
        (Return a, s') \<Rightarrow> f a s'
      | (Raise e, s') \<Rightarrow> (Raise e, s')
      | (Rerun, s') \<Rightarrow> (Rerun, s'))"

text \<open>\<^verbatim>\<open>v[k]\<close> with a string key: only a dictionary can be subscripted by a string.\<close>

definition getitem :: "json \<Rightarrow> string \<Rightarrow> py_error + json" where
  "getitem v k =
     (case v of
        JObj kvs \<Rightarrow> (case map_of kvs k of None \<Rightarrow> Inl (KeyError k) | Some x \<Rightarrow> Inr x)
      | _ \<Rightarrow> Inl TypeError)"

text \<open>\<^verbatim>\<open>for item in v\<close>: the items of a list, the keys of a dictionary, the characters of a
  string (one item per byte here; the code subscripts each item with a string, which a
  string item refuses whatever it holds); anything else is not iterable.\<close>

definition py_iter :: "json \<Rightarrow> py_error + json list" where
  "py_iter v =
     (case v of
        JArr xs \<Rightarrow> Inr xs
      | JObj kvs \<Rightarrow> Inr (map (\<lambda>kv. JStr (fst kv)) kvs)
      | JStr s \<Rightarrow> Inr (map (\<lambda>c. JStr [c]) s)
      | _ \<Rightarrow> Inl TypeError)"

text \<open>\<^verbatim>\<open>str(n)\<close> of an integer: decimal digits, a minus sign when negative.\<close>

definition digit_char :: "nat \<Rightarrow> char" where
  "digit_char d = ''0123456789'' ! d"

fun str_nat :: "nat \<Rightarrow> string" where
  "str_nat n = (if n < 10 then [digit_char n] else str_nat (n div 10) @ [digit_char (n mod 10)])"

declare str_nat.simps [simp del]

definition str_int :: "int \<Rightarrow> string" where
  "str_int i = (if i < 0 then ''-'' @ str_nat (nat (- i)) else str_nat (nat i))"

text \<open>
  \<^verbatim>\<open>str(v)\<close>, what an f-string field \<^verbatim>\<open>{v}\<close> inserts: a string is inserted as it is; the
  text of a float, a list or a dictionary is Python's \<^verbatim>\<open>repr\<close>, taken as the parameter
  \<open>repr\<close>.
\<close>

definition py_str :: "(json \<Rightarrow> string) \<Rightarrow> json \<Rightarrow> string" where
  "py_str repr v =
     (case v of
        JStr s \<Rightarrow> s
      | JNull \<Rightarrow> ''None''
      | JBool b \<Rightarrow> (if b then ''True'' else ''False'')
      | JInt i \<Rightarrow> str_int i
      | _ \<Rightarrow> repr v)"

subsection \<open>Session state, widgets and the outside world\<close>

text \<open>A message of the conversation: the dictionary with the keys \<^verbatim>\<open>role\<close>, \<^verbatim>\<open>content\<close> and,
  on analyst messages, \<^verbatim>\<open>request_id\<close>.\<close>

record message =
  role :: string
  content :: json
  request_id :: "json option"

record dataframe =
  columns :: "string list"
  rows :: "json list list"

text \<open>\<^verbatim>\<open>df.empty\<close>: some axis has length 0.\<close>

definition df_empty :: "dataframe \<Rightarrow> bool" where
  "df_empty df = (columns df = [] \<or> rows df = [])"

text \<open>The result pair of \<^verbatim>\<open>get_query_exec_result\<close>: \<^verbatim>\<open>(df, None)\<close> or \<^verbatim>\<open>(None, str(e))\<close>.\<close>

type_synonym query_result = "dataframe option \<times> string option"

text \<open>
  A result as a Python object: the pair of values and the identity of the object that holds
  them (what \<^verbatim>\<open>is\<close> compares). Identities are numbered in the order the objects are created.
\<close>

record result_object =
  obj_id :: nat
  obj_value :: query_result

text \<open>The body of the request and the positional arguments of
  \<^verbatim>\<open>_snowflake.send_snow_api_request\<close>.\<close>

record request_body =
  body_messages :: "message list"
  semantic_model_file :: string

record api_request =
  req_method :: string
  req_path :: string
  req_headers :: "(string \<times> string) list"
  req_params :: "(string \<times> string) list"
  req_body :: request_body
  req_guid :: "string option"
  req_timeout :: int

record api_resp =
  resp_status :: int
  resp_content :: string

text \<open>The calls into Streamlit that draw something, in the order they are made.\<close>

datatype ui_event =
    Title string
  | Markdown json
  | SidebarSelectbox string "string list" string
  | Divider
  | Button json string
  | ChatMessage string
  | ChatInput string
  | Spinner string
  | Toast string
  | Expander string
  | Code json
  | ErrorBox string
  | Write string
  | Tabs "string list"
  | Dataframe dataframe
  | Selectbox string "string set" string
  | ChartTypeSelectbox string "string list" string
  | LineChart "string option" "string option"
  | BarChart "string option" "string option"

text \<open>
  The state a script run works on. A key of \<^verbatim>\<open>st.session_state\<close> that has not been assigned
  yet is \<open>None\<close>; \<open>active_suggestion = Some JNull\<close> is the key holding Python's \<^verbatim>\<open>None\<close>.
  \<open>cache\<close> is the store behind \<^verbatim>\<open>@st.cache_data\<close>, \<open>objects\<close> counts the result objects
  created so far, \<open>api_log\<close> and \<open>sql_log\<close> list the requests
  sent to the Analyst API and the statements run on the warehouse session so far, and
  \<open>screen\<close> lists what the current script run has drawn.
\<close>

record state =
  messages :: "message list option"
  active_suggestion :: "json option"
  selected_semantic_model_path :: "string option"
  fire_API_error_notify :: "bool option"
  cache :: "(json \<times> query_result) list"
  objects :: nat
  api_log :: "api_request list"
  sql_log :: "json list"
  screen :: "ui_event list"

text \<open>What the warehouse does with a statement: a table, a \<^verbatim>\<open>SnowparkSQLException\<close> with its
  text, or some other exception.\<close>

datatype sql_outcome = Table dataframe | SnowparkSQLException string | OtherException py_error

text \<open>
  The collaborators outside the file. The Analyst API and the warehouse are asked in
  sequence, so each answers from the number of earlier calls and the request;
  \<^verbatim>\<open>json.loads\<close> either returns a value or raises; \<open>py_repr\<close> is Python's \<^verbatim>\<open>repr\<close>.
\<close>

record env =
  send_snow_api_request :: "nat \<Rightarrow> api_request \<Rightarrow> api_resp"
  json_loads :: "string \<Rightarrow> py_error + json"
  py_repr :: "json \<Rightarrow> string"
  session_sql :: "nat \<Rightarrow> json \<Rightarrow> sql_outcome"

text \<open>
  What the widgets return in one script run: the value of the semantic-model selector,
  whether the clear button was pressed, the submitted chat text, which buttons (by key)
  were pressed, and the values of the select boxes (by key).
\<close>

record ui_inputs =
  semantic_model_choice :: string
  clear_clicked :: bool
  chat_input :: "string option"
  button_clicked :: "string \<Rightarrow> bool"
  selectbox_value :: "string \<Rightarrow> string option"

definition draw :: "ui_event \<Rightarrow> state \<Rightarrow> state" where
  "draw e s = s\<lparr>screen := screen s @ [e]\<rparr>"

subsection \<open>Constants of the module\<close>

definition AVAILABLE_SEMANTIC_MODELS_PATHS :: "string list" where
  "AVAILABLE_SEMANTIC_MODELS_PATHS =
     [''IA_CORTEX.CORTEX_SCHEMA.RAW_DATA/elden_modelo_semantico.yaml'']"

definition API_ENDPOINT :: string where
  "API_ENDPOINT = ''/api/v2/cortex/analyst/message''"

definition API_TIMEOUT :: int where
  "API_TIMEOUT = 50000"

subsection \<open>reset_session_state\<close>

definition reset_session_state :: "state \<Rightarrow> state" where
  "reset_session_state s = s\<lparr>messages := Some [], active_suggestion := Some JNull\<rparr>"

subsection \<open>The Analyst API client\<close>

definition lift :: "py_error + 'a \<Rightarrow> state \<Rightarrow> 'a outcome \<times> state" where
  "lift r s = (case r of Inl e \<Rightarrow> (Raise e, s) | Inr x \<Rightarrow> (Return x, s))"

definition NL :: string where
  "NL = [CHR 0x0A]"

definition SIREN :: string where
  "SIREN = [CHR 0xF0, CHR 0x9F, CHR 0x9A, CHR 0xA8]"

text \<open>The f-string of \<^verbatim>\<open>get_analyst_response\<close>, with the four values it inserts.\<close>

definition error_msg_text :: "(json \<Rightarrow> string) \<Rightarrow> int \<Rightarrow> json \<Rightarrow> json \<Rightarrow> json \<Rightarrow> string" where
  "error_msg_text repr status rid code msg =
     NL @ SIREN @ '' An Analyst API error has occurred '' @ SIREN @ NL @
     NL @
     ''* response code: `'' @ str_int status @ ''`'' @ NL @
     ''* request-id: `'' @ py_str repr rid @ ''`'' @ NL @
     ''* error code: `'' @ py_str repr code @ ''`'' @ NL @
     NL @
     ''Message:'' @ NL @
     ''```'' @ NL @
     py_str repr msg @ NL @
     ''```'' @ NL @
     ''        ''"

definition analyst_request :: "message list \<Rightarrow> string \<Rightarrow> api_request" where
  "analyst_request msgs path =
     \<lparr>req_method = ''POST'',
      req_path = API_ENDPOINT,
      req_headers = [],
      req_params = [],
      req_body = \<lparr>body_messages = msgs, semantic_model_file = ''@'' @ path\<rparr>,
      req_guid = None,
      req_timeout = API_TIMEOUT\<rparr>"

definition get_analyst_response ::
  "env \<Rightarrow> message list \<Rightarrow> state \<Rightarrow> (json \<times> string option) outcome \<times> state" where
  "get_analyst_response env msgs s =
     (case selected_semantic_model_path s of
        None \<Rightarrow> (Raise (AttributeError ''selected_semantic_model_path''), s)
      | Some path \<Rightarrow>
          let request = analyst_request msgs path;
              resp = send_snow_api_request env (length (api_log s)) request;
              s' = s\<lparr>api_log := api_log s @ [request]\<rparr>
          in and_then (lift (json_loads env (resp_content resp)))
               (\<lambda>parsed_content.
                  if resp_status resp < 400 then (\<lambda>t. (Return (parsed_content, None), t))
                  else
                    and_then (lift (getitem parsed_content ''request_id'')) (\<lambda>rid.
                    and_then (lift (getitem parsed_content ''error_code'')) (\<lambda>code.
                    and_then (lift (getitem parsed_content ''message'')) (\<lambda>msg t.
                      (Return (parsed_content,
                         Some (error_msg_text (py_repr env) (resp_status resp) rid code msg)), t)))))
               s')"

subsection \<open>The query executor and its cache\<close>

text \<open>The function under the decorator: run the statement, catch \<^verbatim>\<open>SnowparkSQLException\<close>,
  return a new pair.\<close>

definition run_query :: "env \<Rightarrow> json \<Rightarrow> state \<Rightarrow> result_object outcome \<times> state" where
  "run_query env query s =
     (let s' = s\<lparr>sql_log := sql_log s @ [query]\<rparr>;
          s'' = s'\<lparr>objects := Suc (objects s')\<rparr>
      in case session_sql env (length (sql_log s)) query of
           Table df \<Rightarrow> (Return \<lparr>obj_id = objects s', obj_value = (Some df, None)\<rparr>, s'')
         | SnowparkSQLException e \<Rightarrow>
             (Return \<lparr>obj_id = objects s', obj_value = (None, Some e)\<rparr>, s'')
         | OtherException e \<Rightarrow> (Raise e, s'))"

text \<open>
  \<^verbatim>\<open>@st.cache_data\<close>, Streamlit's decorator. The store keeps the pickled return value under
  the argument. A call whose argument is in the store does not run the function and
  returns a new object unpickled from the stored value: the same value, another identity.
  Otherwise the function runs, a returned value is stored under the argument, and the
  object the function made is returned. Nothing is stored when the function raises, and
  nothing in the file removes an entry.
\<close>

definition cache_data ::
  "(json \<Rightarrow> state \<Rightarrow> result_object outcome \<times> state) \<Rightarrow> json \<Rightarrow> state \<Rightarrow> result_object outcome \<times> state" where
  "cache_data f arg s =
     (case map_of (cache s) arg of
        Some v \<Rightarrow> (Return \<lparr>obj_id = objects s, obj_value = v\<rparr>, s\<lparr>objects := Suc (objects s)\<rparr>)
      | None \<Rightarrow>
          (case f arg s of
             (Return obj, s') \<Rightarrow> (Return obj, s'\<lparr>cache := (arg, obj_value obj) # cache s'\<rparr>)
           | (Raise e, s') \<Rightarrow> (Raise e, s')
           | (Rerun, s') \<Rightarrow> (Rerun, s')))"

definition get_query_exec_result :: "env \<Rightarrow> json \<Rightarrow> state \<Rightarrow> result_object outcome \<times> state" where
  "get_query_exec_result env = cache_data (run_query env)"

subsection \<open>Rendering\<close>

text \<open>
  The rendering functions record the widgets they draw and read what the widgets return
  from the inputs of the run. Layout calls (\<^verbatim>\<open>st.columns\<close>, the \<^verbatim>\<open>with\<close> blocks) draw nothing of
  their own. Errors that Streamlit itself raises for a widget (a key drawn twice in one
  run, a label that is not a string) are outside the model.
\<close>

definition LINE_CHART :: string where
  "LINE_CHART = ''Grafico Lineal '' @ [CHR 0xF0, CHR 0x9F, CHR 0x93, CHR 0x88]"

definition BAR_CHART :: string where
  "BAR_CHART = ''Grafico Barras '' @ [CHR 0xF0, CHR 0x9F, CHR 0x93, CHR 0x8A]"

text \<open>
  \<^verbatim>\<open>display_charts_tab\<close>. A select box returns what the user chose; the drawing calls on
  the data frame are recorded with the two columns they receive.
\<close>

definition display_charts_tab :: "ui_inputs \<Rightarrow> dataframe \<Rightarrow> nat \<Rightarrow> state \<Rightarrow> state" where
  "display_charts_tab inp df message_index s =
     (if length (columns df) \<ge> 2 then
        let all_cols_set = set (columns df);
            x_key = ''x_col_select_'' @ str_nat message_index;
            s1 = draw (Selectbox ''Eje X'' all_cols_set x_key) s;
            x_col = selectbox_value inp x_key;
            y_key = ''y_col_select_'' @ str_nat message_index;
            s2 = draw (Selectbox ''Eje Y'' (all_cols_set - set_option x_col) y_key) s1;
            y_col = selectbox_value inp y_key;
            t_key = ''chart_type_'' @ str_nat message_index;
            s3 = draw (ChartTypeSelectbox ''Select chart type'' [LINE_CHART, BAR_CHART] t_key) s2;
            chart_type = selectbox_value inp t_key
        in if chart_type = Some LINE_CHART then draw (LineChart x_col y_col) s3
           else if chart_type = Some BAR_CHART then draw (BarChart x_col y_col) s3
           else s3
      else draw (Write ''Al menos 2 columnas requeridas'') s)"

definition display_sql_query :: "env \<Rightarrow> ui_inputs \<Rightarrow> json \<Rightarrow> nat \<Rightarrow> state \<Rightarrow> unit outcome \<times> state" where
  "display_sql_query env inp sql message_index s =
     (let s1 = draw (Code sql) (draw (Expander ''SQL Query'') s);
          s2 = draw (Spinner ''Corriendo consulta SQL...'') (draw (Expander ''Resultados'') s1)
      in and_then (get_query_exec_result env sql)
           (\<lambda>result t.
              case fst (obj_value result) of
                None \<Rightarrow>
                  (Return (),
                   draw (ErrorBox (''Could not execute generated SQL query. Error: '' @
                           (case snd (obj_value result) of None \<Rightarrow> ''None'' | Some e \<Rightarrow> e))) t)
              | Some d \<Rightarrow>
                  if df_empty d then (Return (), draw (Write ''Query returned no data'') t)
                  else
                    (Return (),
                     display_charts_tab inp d message_index
                       (draw (Dataframe d)
                          (draw (Tabs [''Datos '' @ [CHR 0xF0, CHR 0x9F, CHR 0x93, CHR 0x84],
                                       ''Grafico '' @ [CHR 0xF0, CHR 0x9F, CHR 0x93, CHR 0x88] @ '' '']) t))))
           s2)"

text \<open>The loop over the suggestions of one block: a button each, and a pressed button
  stores its suggestion.\<close>

fun display_suggestions :: "ui_inputs \<Rightarrow> json list \<Rightarrow> nat \<Rightarrow> nat \<Rightarrow> state \<Rightarrow> state" where
  "display_suggestions inp [] message_index suggestion_index s = s"
| "display_suggestions inp (suggestion # rest) message_index suggestion_index s =
     (let key = ''suggestion_'' @ str_nat message_index @ ''_'' @ str_nat suggestion_index;
          s1 = draw (Button suggestion key) s;
          s2 = (if button_clicked inp key then s1\<lparr>active_suggestion := Some suggestion\<rparr> else s1)
      in display_suggestions inp rest message_index (Suc suggestion_index) s2)"

definition display_item :: "env \<Rightarrow> ui_inputs \<Rightarrow> json \<Rightarrow> nat \<Rightarrow> state \<Rightarrow> unit outcome \<times> state" where
  "display_item env inp item message_index =
     and_then (lift (getitem item ''type'')) (\<lambda>ty.
       if ty = JStr ''text'' then
         and_then (lift (getitem item ''text'')) (\<lambda>txt s. (Return (), draw (Markdown txt) s))
       else if ty = JStr ''suggestions'' then
         and_then (lift (getitem item ''suggestions'')) (\<lambda>sg.
         and_then (lift (py_iter sg)) (\<lambda>sgs s.
           (Return (), display_suggestions inp sgs message_index 0 s)))
       else if ty = JStr ''sql'' then
         and_then (lift (getitem item ''statement'')) (\<lambda>stmt.
           display_sql_query env inp stmt message_index)
       else (\<lambda>s. (Return (), s)))"

fun display_items :: "env \<Rightarrow> ui_inputs \<Rightarrow> json list \<Rightarrow> nat \<Rightarrow> state \<Rightarrow> unit outcome \<times> state" where
  "display_items env inp [] message_index s = (Return (), s)"
| "display_items env inp (item # items) message_index s =
     (case display_item env inp item message_index s of
        (Return _, s') \<Rightarrow> display_items env inp items message_index s'
      | (Raise e, s') \<Rightarrow> (Raise e, s')
      | (Rerun, s') \<Rightarrow> (Rerun, s'))"

definition display_message :: "env \<Rightarrow> ui_inputs \<Rightarrow> json \<Rightarrow> nat \<Rightarrow> state \<Rightarrow> unit outcome \<times> state" where
  "display_message env inp cont message_index =
     and_then (lift (py_iter cont)) (\<lambda>items. display_items env inp items message_index)"

fun display_turns :: "env \<Rightarrow> ui_inputs \<Rightarrow> message list \<Rightarrow> nat \<Rightarrow> state \<Rightarrow> unit outcome \<times> state" where
  "display_turns env inp [] idx s = (Return (), s)"
| "display_turns env inp (m # ms) idx s =
     (case display_message env inp (content m) idx (draw (ChatMessage (role m)) s) of
        (Return _, s') \<Rightarrow> display_turns env inp ms (Suc idx) s'
      | (Raise e, s') \<Rightarrow> (Raise e, s')
      | (Rerun, s') \<Rightarrow> (Rerun, s'))"

definition display_conversation :: "env \<Rightarrow> ui_inputs \<Rightarrow> state \<Rightarrow> unit outcome \<times> state" where
  "display_conversation env inp s =
     (case messages s of
        None \<Rightarrow> (Raise (AttributeError ''messages''), s)
      | Some ms \<Rightarrow> display_turns env inp ms 0 s)"

subsection \<open>The turn controller\<close>

definition handle_error_notifications :: "state \<Rightarrow> state" where
  "handle_error_notifications s =
     (if fire_API_error_notify s = Some True then
        (draw (Toast ''An API error has occured!'') s)\<lparr>fire_API_error_notify := Some False\<rparr>
      else s)"

definition user_message :: "json \<Rightarrow> message" where
  "user_message prompt =
     \<lparr>role = ''user'',
      content = JArr [JObj [(''type'', JStr ''text''), (''text'', prompt)]],
      request_id = None\<rparr>"

text \<open>The two branches that build \<^verbatim>\<open>analyst_message\<close>; the error branch also sets the
  notification flag.\<close>

definition analyst_message_of :: "json \<Rightarrow> string option \<Rightarrow> state \<Rightarrow> message outcome \<times> state" where
  "analyst_message_of response error_msg =
     (case error_msg of
        None \<Rightarrow>
          and_then (lift (getitem response ''message'')) (\<lambda>m.
          and_then (lift (getitem m ''content'')) (\<lambda>c.
          and_then (lift (getitem response ''request_id'')) (\<lambda>rid s.
            (Return \<lparr>role = ''analyst'', content = c, request_id = Some rid\<rparr>, s))))
      | Some err \<Rightarrow>
          and_then (lift (getitem response ''request_id'')) (\<lambda>rid s.
            (Return \<lparr>role = ''analyst'',
                     content = JArr [JObj [(''type'', JStr ''text''), (''text'', JStr err)]],
                     request_id = Some rid\<rparr>,
             s\<lparr>fire_API_error_notify := Some True\<rparr>)))"

text \<open>
  \<^verbatim>\<open>process_user_input\<close>: append the user message and draw it, ask the analyst with the
  messages of the session, build the analyst message, append it, rerun. The one-second
  sleep is left out.
\<close>

definition process_user_input :: "env \<Rightarrow> ui_inputs \<Rightarrow> json \<Rightarrow> state \<Rightarrow> unit outcome \<times> state" where
  "process_user_input env inp prompt s =
     (case messages s of
        None \<Rightarrow> (Raise (AttributeError ''messages''), s)
      | Some ms \<Rightarrow>
          let new_user_message = user_message prompt;
              s1 = s\<lparr>messages := Some (ms @ [new_user_message])\<rparr>;
              user_msg_index = length (ms @ [new_user_message]) - 1
          in and_then (display_message env inp (content new_user_message) user_msg_index) (\<lambda>_.
             and_then (\<lambda>t.
                case messages t of
                  None \<Rightarrow> (Raise (AttributeError ''messages''), t)
                | Some msgs \<Rightarrow>
                    get_analyst_response env msgs
                      (draw (Spinner ''Esperando la respuesta del Analista...'')
                         (draw (ChatMessage ''analyst'') t))) (\<lambda>(response, error_msg).
             and_then (analyst_message_of response error_msg) (\<lambda>analyst_message t.
                case messages t of
                  None \<Rightarrow> (Raise (AttributeError ''messages''), t)
                | Some msgs \<Rightarrow> (Rerun, t\<lparr>messages := Some (msgs @ [analyst_message])\<rparr>))))
               (draw (ChatMessage ''user'') s1))"

definition handle_user_inputs :: "env \<Rightarrow> ui_inputs \<Rightarrow> state \<Rightarrow> unit outcome \<times> state" where
  "handle_user_inputs env inp s =
     (let s1 = draw (ChatInput ([CHR 0xC2, CHR 0xBF] @ ''Cual es tu pregunta?'')) s
      in case chat_input inp of
           Some (c # cs) \<Rightarrow> process_user_input env inp (JStr (c # cs)) s1
         | _ \<Rightarrow>
             (case active_suggestion s1 of
                None \<Rightarrow> (Raise (AttributeError ''active_suggestion''), s1)
              | Some suggestion \<Rightarrow>
                  if suggestion = JNull then (Return (), s1)
                  else process_user_input env inp suggestion
                         (s1\<lparr>active_suggestion := Some JNull\<rparr>)))"

definition show_header_and_sidebar :: "ui_inputs \<Rightarrow> state \<Rightarrow> state" where
  "show_header_and_sidebar inp s =
     (let s1 = draw (Title ''Cortex Analyst'') s;
          s2 = draw (Markdown (JStr ([CHR 0xC2, CHR 0xA1] @
                 ''Bienvenido a Cortex Analyst! Escribe tus preguntas a continuaci'' @
                 [CHR 0xC3, CHR 0xB3] @ ''n para interactuar con tus datos. ''))) s1;
          s3 = (draw (SidebarSelectbox ''Modelo Semantico seleccionado:''
                  AVAILABLE_SEMANTIC_MODELS_PATHS ''selected_semantic_model_path'') s2)
               \<lparr>selected_semantic_model_path := Some (semantic_model_choice inp)\<rparr>;
          s4 = draw (Button (JStr ''Limpiar historial de chat'') []) (draw Divider s3)
      in if clear_clicked inp then reset_session_state s4 else s4)"

definition BOOTSTRAP_PROMPT :: string where
  "BOOTSTRAP_PROMPT = [CHR 0xC2, CHR 0xBF] @ ''Que pregunta quieres hacer?''"

definition main :: "env \<Rightarrow> ui_inputs \<Rightarrow> state \<Rightarrow> unit outcome \<times> state" where
  "main env inp s =
     (let s1 = (if messages s = None then reset_session_state s else s);
          s2 = show_header_and_sidebar inp s1
      in and_then
           (\<lambda>t. case messages t of
                   None \<Rightarrow> (Raise (AttributeError ''messages''), t)
                 | Some ms \<Rightarrow>
                     if length ms = 0 then process_user_input env inp (JStr BOOTSTRAP_PROMPT) t
                     else (Return (), t))
           (\<lambda>_. and_then (display_conversation env inp)
           (\<lambda>_. and_then (handle_user_inputs env inp)
           (\<lambda>_ t. (Return (), handle_error_notifications t))))
           s2)"

text \<open>
  One script run. Streamlit calls the \<^verbatim>\<open>on_change\<close> callback of the semantic-model selector,
  which is \<^verbatim>\<open>reset_session_state\<close>, before the run in which the selector has a new value;
  every run draws on an empty page.
\<close>

definition script_run :: "env \<Rightarrow> bool \<Rightarrow> ui_inputs \<Rightarrow> state \<Rightarrow> unit outcome \<times> state" where
  "script_run env model_changed inp s =
     main env inp ((if model_changed then reset_session_state s else s)\<lparr>screen := []\<rparr>)"

subsection \<open>Notions used by the properties\<close>

text \<open>The state in which \<^verbatim>\<open>process_user_input\<close> calls the analyst: the user message appended
  to the messages \<open>ms\<close> and drawn, the analyst's chat bubble and spinner open.\<close>

definition asking :: "message list \<Rightarrow> json \<Rightarrow> state \<Rightarrow> state" where
  "asking ms prompt s =
     draw (Spinner ''Esperando la respuesta del Analista...'')
       (draw (ChatMessage ''analyst'')
          (draw (Markdown prompt)
             (draw (ChatMessage ''user'') (s\<lparr>messages := Some (ms @ [user_message prompt])\<rparr>))))"

definition is_Inr :: "'a + 'b \<Rightarrow> bool" where
  "is_Inr r = (case r of Inl _ \<Rightarrow> False | Inr _ \<Rightarrow> True)"

text \<open>
  A reply that \<^verbatim>\<open>process_user_input\<close> can turn into an analyst message: its body is JSON,
  and it has the keys read on its path, \<^verbatim>\<open>message.content\<close> and \<^verbatim>\<open>request_id\<close> below status
  400, \<^verbatim>\<open>request_id\<close>, \<^verbatim>\<open>error_code\<close> and \<^verbatim>\<open>message\<close> from 400 on.
\<close>

definition reply_ok :: "env \<Rightarrow> api_resp \<Rightarrow> bool" where
  "reply_ok env reply =
     (case json_loads env (resp_content reply) of
        Inl e \<Rightarrow> False
      | Inr body \<Rightarrow>
          if resp_status reply < 400 then
            (case getitem body ''message'' of
               Inl e \<Rightarrow> False
             | Inr m \<Rightarrow> is_Inr (getitem m ''content'')) \<and>
            is_Inr (getitem body ''request_id'')
          else
            is_Inr (getitem body ''request_id'') \<and>
            is_Inr (getitem body ''error_code'') \<and>
            is_Inr (getitem body ''message''))"

text \<open>
  A session: script runs one after the other, each from the state the run before it left
  (the session state, the cache and the logs outlive a rerun and an exception). A run is
  given by whether the model selector has changed and by what the widgets return; the
  result is the outcomes of the runs and the last state.
\<close>

fun run_session :: "env \<Rightarrow> (bool \<times> ui_inputs) list \<Rightarrow> state \<Rightarrow> unit outcome list \<times> state" where
  "run_session env [] s = ([], s)"
| "run_session env ((model_changed, inp) # runs) s =
     (case script_run env model_changed inp s of
        (r, s') \<Rightarrow> (case run_session env runs s' of (rs, s'') \<Rightarrow> (r # rs, s'')))"

text \<open>The number that a string of decimal digits denotes.\<close>

definition digit_value :: "char \<Rightarrow> nat" where
  "digit_value c = of_char c - 48"

definition decimal_value :: "string \<Rightarrow> nat" where
  "decimal_value ds = foldl (\<lambda>a c. 10 * a + digit_value c) 0 ds"

definition is_toast :: "ui_event \<Rightarrow> bool" where
  "is_toast e = (case e of Toast t \<Rightarrow> True | _ \<Rightarrow> False)"

definition is_axis_selector :: "ui_event \<Rightarrow> bool" where
  "is_axis_selector e = (case e of Selectbox label opts key \<Rightarrow> True | _ \<Rightarrow> False)"

text \<open>A call that leaves the messages, the selected model and the notification flag as they
  are and shows no notification.\<close>

definition quiet :: "state \<Rightarrow> state \<Rightarrow> bool" where
  "quiet s s' \<longleftrightarrow>
     messages s' = messages s \<and>
     selected_semantic_model_path s' = selected_semantic_model_path s \<and>
     fire_API_error_notify s' = fire_API_error_notify s \<and>
     filter is_toast (screen s') = filter is_toast (screen s)"

subsection \<open>Example replies and inputs\<close>

text \<open>
  Six reply bodies: a success body, an error body, an error body without \<^verbatim>\<open>request_id\<close>
  and \<^verbatim>\<open>error_code\<close>, an HTML page, a success body whose content is \<^verbatim>\<open>null\<close>, and a success
  body with one suggestion. \<open>example_loads\<close> is \<^verbatim>\<open>json.loads\<close> on these and on the empty
  body: the HTML page and the empty string are not JSON, the others are, with the values
  given.
\<close>

definition SUCCESS_BODY :: string where
  \<open>SUCCESS_BODY =
     ''{"message": {"content": [{"type": "text", "text": "hola"}]}, "request_id": "r-1"}''\<close>

definition ERROR_BODY :: string where
  \<open>ERROR_BODY = ''{"request_id": "r-2", "error_code": "390142", "message": "bad request"}''\<close>

definition INCOMPLETE_ERROR_BODY :: string where
  \<open>INCOMPLETE_ERROR_BODY = ''{"message": "Service unavailable"}''\<close>

definition HTML_BODY :: string where
  \<open>HTML_BODY = ''<html><body>502 Bad Gateway</body></html>''\<close>

definition NULL_CONTENT_BODY :: string where
  \<open>NULL_CONTENT_BODY = ''{"message": {"content": null}, "request_id": "r-3"}''\<close>

definition SUGGESTIONS_BODY :: string where
  \<open>SUGGESTIONS_BODY =
     ''{"message": {"content": [{"type": "suggestions", "suggestions": ["ventas por mes"]}]}, "request_id": "r-4"}''\<close>

definition example_loads :: "string \<Rightarrow> py_error + json" where
  "example_loads body =
     (if body = SUCCESS_BODY then
        Inr (JObj [(''message'',
                    JObj [(''content'',
                           JArr [JObj [(''type'', JStr ''text''), (''text'', JStr ''hola'')]])]),
                   (''request_id'', JStr ''r-1'')])
      else if body = ERROR_BODY then
        Inr (JObj [(''request_id'', JStr ''r-2''), (''error_code'', JStr ''390142''),
                   (''message'', JStr ''bad request'')])
      else if body = INCOMPLETE_ERROR_BODY then
        Inr (JObj [(''message'', JStr ''Service unavailable'')])
      else if body = NULL_CONTENT_BODY then
        Inr (JObj [(''message'', JObj [(''content'', JNull)]), (''request_id'', JStr ''r-3'')])
      else if body = SUGGESTIONS_BODY then
        Inr (JObj [(''message'',
                    JObj [(''content'',
                           JArr [JObj [(''type'', JStr ''suggestions''),
                                       (''suggestions'', JArr [JStr ''ventas por mes''])]])]),
                   (''request_id'', JStr ''r-4'')])
      else Inl JSONDecodeError)"

text \<open>An environment whose API answers every request with the given status and body, and
  whose warehouse answers every statement with a one-row table holding the number of
  earlier calls.\<close>

definition example_env :: "int \<Rightarrow> string \<Rightarrow> env" where
  "example_env status body =
     \<lparr>send_snow_api_request = (\<lambda>n request. \<lparr>resp_status = status, resp_content = body\<rparr>),
      json_loads = example_loads,
      py_repr = (\<lambda>v. ''<repr>''),
      session_sql = (\<lambda>n query.
         Table \<lparr>columns = [''CALL'', ''TOTAL''], rows = [[JInt (int n), JInt 7]]\<rparr>)\<rparr>"

text \<open>A script run in which the user touches nothing.\<close>

definition example_inputs :: ui_inputs where
  "example_inputs =
     \<lparr>semantic_model_choice = ''IA_CORTEX.CORTEX_SCHEMA.RAW_DATA/elden_modelo_semantico.yaml'',
      clear_clicked = False,
      chat_input = None,
      button_clicked = (\<lambda>key. False),
      selectbox_value = (\<lambda>key. None)\<rparr>"

text \<open>The session before the first script run, and after a reset with the model selected.\<close>

definition fresh_state :: state where
  "fresh_state =
     \<lparr>messages = None, active_suggestion = None, selected_semantic_model_path = None,
      fire_API_error_notify = None, cache = [], objects = 0, api_log = [], sql_log = [],
      screen = []\<rparr>"

definition ready_state :: state where
  "ready_state =
     (reset_session_state fresh_state)
       \<lparr>selected_semantic_model_path :=
          Some ''IA_CORTEX.CORTEX_SCHEMA.RAW_DATA/elden_modelo_semantico.yaml''\<rparr>"

text \<open>Query results with one and with two columns, and a run in which the user has chosen
  the column \<^verbatim>\<open>MONTH\<close> in the X selector of message 3.\<close>

definition one_column :: dataframe where
  "one_column = \<lparr>columns = [''TOTAL''], rows = [[JInt 7]]\<rparr>"

definition two_columns :: dataframe where
  "two_columns = \<lparr>columns = [''MONTH'', ''TOTAL''], rows = [[JStr ''2024-01'', JInt 7]]\<rparr>"

definition choose_month :: ui_inputs where
  "choose_month = example_inputs\<lparr>selectbox_value := (\<lambda>key. if key = ''x_col_select_3'' then Some ''MONTH'' else None)\<rparr>"

text \<open>What the example warehouse answers to its first and to its second run, and the
  session after \<^verbatim>\<open>SELECT 1\<close> has been run once from \<open>ready_state\<close>.\<close>

definition first_table :: dataframe where
  "first_table = \<lparr>columns = [''CALL'', ''TOTAL''], rows = [[JInt 0, JInt 7]]\<rparr>"

definition second_table :: dataframe where
  "second_table = \<lparr>columns = [''CALL'', ''TOTAL''], rows = [[JInt 1, JInt 7]]\<rparr>"

definition after_first_query :: state where
  "after_first_query =
     ready_state\<lparr>cache := [(JStr ''SELECT 1'', (Some first_table, None))],
                 objects := 1,
                 sql_log := [JStr ''SELECT 1'']\<rparr>"

text \<open>The session after an input was answered with the error body and status 400.\<close>

definition after_api_error :: state where
  "after_api_error =
     snd (process_user_input (example_env 400 ERROR_BODY) example_inputs (JStr ''hi'') ready_state)"

text \<open>A run in which the user presses the first suggestion of message 1, and a run in which
  the user has typed \<^verbatim>\<open>hi\<close>.\<close>

definition clicking_suggestion :: ui_inputs where
  "clicking_suggestion =
     example_inputs\<lparr>button_clicked := (\<lambda>key. key = ''suggestion_1_0'')\<rparr>"


section \<open>Auxiliary facts\<close>

lemma lift_simps [simp]: "lift (Inr x) s = (Return x, s)" "lift (Inl e) s = (Raise e, s)"
  by (simp_all add: lift_def)

lemma and_then_lift [simp]:
  "and_then (lift (Inr x)) f s = f x s"
  "and_then (lift (Inl e)) f s = (Raise e, s)"
  by (simp_all add: and_then_def)

lemma draw_fields [simp]:
  "messages (draw e s) = messages s"
  "active_suggestion (draw e s) = active_suggestion s"
  "selected_semantic_model_path (draw e s) = selected_semantic_model_path s"
  "fire_API_error_notify (draw e s) = fire_API_error_notify s"
  "cache (draw e s) = cache s"
  "objects (draw e s) = objects s"
  "api_log (draw e s) = api_log s"
  "sql_log (draw e s) = sql_log s"
  "screen (draw e s) = screen s @ [e]"
  by (simp_all add: draw_def)

lemma display_user_message:
  "display_message env inp (content (user_message prompt)) i s = (Return (), draw (Markdown prompt) s)"
  by (simp add: display_message_def user_message_def py_iter_def display_item_def getitem_def)

lemma process_user_input_unfold:
  assumes "messages s = Some ms"
  shows "process_user_input env inp prompt s =
     and_then (get_analyst_response env (ms @ [user_message prompt]))
       (\<lambda>(response, error_msg).
          and_then (analyst_message_of response error_msg) (\<lambda>analyst_message t.
            case messages t of
              None \<Rightarrow> (Raise (AttributeError ''messages''), t)
            | Some msgs \<Rightarrow> (Rerun, t\<lparr>messages := Some (msgs @ [analyst_message])\<rparr>)))
       (asking ms prompt s)"
  using assms
  by (simp add: process_user_input_def Let_def display_user_message and_then_def asking_def)

lemma get_analyst_response_success:
  assumes "selected_semantic_model_path t = Some path"
    and "json_loads env (resp_content (send_snow_api_request env (length (api_log t)) (analyst_request msgs path))) = Inr body"
    and "resp_status (send_snow_api_request env (length (api_log t)) (analyst_request msgs path)) < 400"
  shows "get_analyst_response env msgs t =
           (Return (body, None), t\<lparr>api_log := api_log t @ [analyst_request msgs path]\<rparr>)"
  using assms by (simp add: get_analyst_response_def Let_def)

lemma get_analyst_response_error:
  assumes "selected_semantic_model_path t = Some path"
    and "json_loads env (resp_content (send_snow_api_request env (length (api_log t)) (analyst_request msgs path))) = Inr body"
    and "\<not> resp_status (send_snow_api_request env (length (api_log t)) (analyst_request msgs path)) < 400"
    and "getitem body ''request_id'' = Inr rid"
    and "getitem body ''error_code'' = Inr code"
    and "getitem body ''message'' = Inr msg"
  shows "get_analyst_response env msgs t =
           (Return (body, Some (error_msg_text (py_repr env)
               (resp_status (send_snow_api_request env (length (api_log t)) (analyst_request msgs path))) rid code msg)),
            t\<lparr>api_log := api_log t @ [analyst_request msgs path]\<rparr>)"
  using assms by (simp add: get_analyst_response_def Let_def)

lemma pui_success:
  assumes "messages s = Some ms"
    and "selected_semantic_model_path s = Some path"
    and "reply = send_snow_api_request env (length (api_log s)) (analyst_request (ms @ [user_message prompt]) path)"
    and "resp_status reply < 400"
    and "json_loads env (resp_content reply) = Inr body"
    and "getitem body ''message'' = Inr m"
    and "getitem m ''content'' = Inr c"
    and "getitem body ''request_id'' = Inr rid"
  shows "process_user_input env inp prompt s =
           (Rerun, (asking ms prompt s)
              \<lparr>messages := Some (ms @ [user_message prompt, \<lparr>role = ''analyst'', content = c, request_id = Some rid\<rparr>]),
               api_log := api_log s @ [analyst_request (ms @ [user_message prompt]) path]\<rparr>)
         \<and> fst (get_analyst_response env (ms @ [user_message prompt]) s) = Return (body, None)"
proof -
  have g: "get_analyst_response env (ms @ [user_message prompt]) (asking ms prompt s) =
      (Return (body, None), (asking ms prompt s)\<lparr>api_log := api_log s @ [analyst_request (ms @ [user_message prompt]) path]\<rparr>)"
    using assms by (simp add: get_analyst_response_success asking_def)
  have a: "analyst_message_of body None t = (Return \<lparr>role = ''analyst'', content = c, request_id = Some rid\<rparr>, t)" for t
    using assms by (simp add: analyst_message_of_def)
  have "process_user_input env inp prompt s =
           (Rerun, (asking ms prompt s)
              \<lparr>messages := Some (ms @ [user_message prompt, \<lparr>role = ''analyst'', content = c, request_id = Some rid\<rparr>]),
               api_log := api_log s @ [analyst_request (ms @ [user_message prompt]) path]\<rparr>)"
    by (simp add: process_user_input_unfold [OF assms(1)] and_then_def g a) (simp add: asking_def)
  moreover have "fst (get_analyst_response env (ms @ [user_message prompt]) s) = Return (body, None)"
    using assms by (simp add: get_analyst_response_success)
  ultimately show ?thesis by simp
qed


lemma sublist_skip: "sublist x ys \<Longrightarrow> sublist x (zs @ ys)"
  by (auto simp: sublist_def) (metis append.assoc)

lemma error_msg_text_contains:
  "sublist (str_int status) (error_msg_text repr status rid code msg)"
  "sublist (py_str repr rid) (error_msg_text repr status rid code msg)"
  "sublist (py_str repr code) (error_msg_text repr status rid code msg)"
  "sublist (py_str repr msg) (error_msg_text repr status rid code msg)"
  unfolding error_msg_text_def
  by (intro sublist_skip sublist_append_rightI)+

lemma pui_api_error:
  assumes "messages s = Some ms"
    and "selected_semantic_model_path s = Some path"
    and "reply = send_snow_api_request env (length (api_log s)) (analyst_request (ms @ [user_message prompt]) path)"
    and "resp_status reply \<ge> 400"
    and "json_loads env (resp_content reply) = Inr body"
    and "getitem body ''request_id'' = Inr rid"
    and "getitem body ''error_code'' = Inr code"
    and "getitem body ''message'' = Inr msg"
    and "txt = error_msg_text (py_repr env) (resp_status reply) rid code msg"
  shows "process_user_input env inp prompt s =
           (Rerun, (asking ms prompt s)
              \<lparr>messages := Some (ms @ [user_message prompt,
                  \<lparr>role = ''analyst'',
                   content = JArr [JObj [(''type'', JStr ''text''), (''text'', JStr txt)]],
                   request_id = Some rid\<rparr>]),
               fire_API_error_notify := Some True,
               api_log := api_log s @ [analyst_request (ms @ [user_message prompt]) path]\<rparr>)
         \<and> sublist (str_int (resp_status reply)) txt
         \<and> sublist (py_str (py_repr env) rid) txt
         \<and> sublist (py_str (py_repr env) code) txt
         \<and> sublist (py_str (py_repr env) msg) txt"
proof -
  have g: "get_analyst_response env (ms @ [user_message prompt]) (asking ms prompt s) =
      (Return (body, Some txt),
       (asking ms prompt s)\<lparr>api_log := api_log s @ [analyst_request (ms @ [user_message prompt]) path]\<rparr>)"
    using assms by (simp add: get_analyst_response_error asking_def)
  have a: "analyst_message_of body (Some txt) t =
      (Return \<lparr>role = ''analyst'',
               content = JArr [JObj [(''type'', JStr ''text''), (''text'', JStr txt)]],
               request_id = Some rid\<rparr>, t\<lparr>fire_API_error_notify := Some True\<rparr>)" for t
    using assms by (simp add: analyst_message_of_def)
  have "process_user_input env inp prompt s =
           (Rerun, (asking ms prompt s)
              \<lparr>messages := Some (ms @ [user_message prompt,
                  \<lparr>role = ''analyst'',
                   content = JArr [JObj [(''type'', JStr ''text''), (''text'', JStr txt)]],
                   request_id = Some rid\<rparr>]),
               fire_API_error_notify := Some True,
               api_log := api_log s @ [analyst_request (ms @ [user_message prompt]) path]\<rparr>)"
    by (simp add: process_user_input_unfold [OF assms(1)] and_then_def g a) (simp add: asking_def)
  then show ?thesis
    by (simp add: assms(9) error_msg_text_contains)
qed

lemma get_analyst_response_parse_failure:
  assumes "selected_semantic_model_path t = Some path"
    and "json_loads env (resp_content (send_snow_api_request env (length (api_log t)) (analyst_request msgs path))) = Inl e"
  shows "get_analyst_response env msgs t =
           (Raise e, t\<lparr>api_log := api_log t @ [analyst_request msgs path]\<rparr>)"
  using assms by (simp add: get_analyst_response_def Let_def)

lemma get_analyst_response_missing_key:
  assumes "selected_semantic_model_path t = Some path"
    and "json_loads env (resp_content (send_snow_api_request env (length (api_log t)) (analyst_request msgs path))) = Inr (JObj kvs)"
    and "\<not> resp_status (send_snow_api_request env (length (api_log t)) (analyst_request msgs path)) < 400"
    and "map_of kvs ''request_id'' = None \<or> map_of kvs ''error_code'' = None \<or> map_of kvs ''message'' = None"
  shows "get_analyst_response env msgs t =
           (Raise (KeyError (if map_of kvs ''request_id'' = None then ''request_id''
                             else if map_of kvs ''error_code'' = None then ''error_code''
                             else ''message'')),
            t\<lparr>api_log := api_log t @ [analyst_request msgs path]\<rparr>)"
  using assms by (auto simp add: get_analyst_response_def Let_def getitem_def)

lemma pui_missing_key:
  assumes "messages s = Some ms"
    and "selected_semantic_model_path s = Some path"
    and "reply = send_snow_api_request env (length (api_log s)) (analyst_request (ms @ [user_message prompt]) path)"
    and "resp_status reply \<ge> 400"
    and "json_loads env (resp_content reply) = Inr (JObj kvs)"
    and "map_of kvs ''request_id'' = None \<or> map_of kvs ''error_code'' = None \<or> map_of kvs ''message'' = None"
  shows "process_user_input env inp prompt s =
           (Raise (KeyError (if map_of kvs ''request_id'' = None then ''request_id''
                             else if map_of kvs ''error_code'' = None then ''error_code''
                             else ''message'')),
            (asking ms prompt s)\<lparr>api_log := api_log s @ [analyst_request (ms @ [user_message prompt]) path]\<rparr>)"
proof -
  have g: "get_analyst_response env (ms @ [user_message prompt]) (asking ms prompt s) =
      (Raise (KeyError (if map_of kvs ''request_id'' = None then ''request_id''
                             else if map_of kvs ''error_code'' = None then ''error_code''
                             else ''message'')),
       (asking ms prompt s)\<lparr>api_log := api_log s @ [analyst_request (ms @ [user_message prompt]) path]\<rparr>)"
    using assms get_analyst_response_missing_key [of "asking ms prompt s" path env "ms @ [user_message prompt]" kvs]
    by (simp add: asking_def)
  show ?thesis
    by (simp add: process_user_input_unfold [OF assms(1)] and_then_def g)
qed

lemma is_Inr_iff: "is_Inr r \<longleftrightarrow> (\<exists>x. r = Inr x)"
  by (cases r) (simp_all add: is_Inr_def)

lemma process_user_input_reply_ok:
  assumes "messages s = Some ms"
    and "selected_semantic_model_path s = Some path"
    and "reply_ok env (send_snow_api_request env (length (api_log s)) (analyst_request (ms @ [user_message prompt]) path))"
  shows "\<exists>a s'. process_user_input env inp prompt s = (Rerun, s') \<and>
           messages s' = Some (ms @ [user_message prompt, a]) \<and> role a = ''analyst'' \<and>
           selected_semantic_model_path s' = Some path \<and>
           api_log s' = api_log s @ [analyst_request (ms @ [user_message prompt]) path] \<and>
           (if resp_status (send_snow_api_request env (length (api_log s))
                  (analyst_request (ms @ [user_message prompt]) path)) < 400
            then fire_API_error_notify s' = fire_API_error_notify s
            else fire_API_error_notify s' = Some True \<and>
                 (\<exists>txt. content a = JArr [JObj [(''type'', JStr ''text''), (''text'', JStr txt)]]))"
proof -
  define reply where "reply = send_snow_api_request env (length (api_log s)) (analyst_request (ms @ [user_message prompt]) path)"
  from assms(3) obtain body where body: "json_loads env (resp_content reply) = Inr body"
    by (auto simp: reply_ok_def reply_def split: sum.splits)
  show ?thesis
  proof (cases "resp_status reply < 400")
    case True
    with assms(3) body obtain m c rid where
      "getitem body ''message'' = Inr m" "getitem m ''content'' = Inr c" "getitem body ''request_id'' = Inr rid"
      by (auto simp: reply_ok_def reply_def [symmetric] is_Inr_iff split: sum.splits)
    from pui_success [OF assms(1,2) reply_def True body this, of inp]
    show ?thesis using assms(2) True by (auto simp: asking_def reply_def)
  next
    case False
    with assms(3) body obtain rid code msg where
      "getitem body ''request_id'' = Inr rid" "getitem body ''error_code'' = Inr code" "getitem body ''message'' = Inr msg"
      by (auto simp: reply_ok_def reply_def [symmetric] is_Inr_iff split: sum.splits)
    from pui_api_error [OF assms(1,2) reply_def _ body this refl, of inp] False
    show ?thesis using assms(2) by (auto simp: asking_def reply_def)
  qed
qed

lemma quiet_refl [simp]: "quiet s s"
  by (simp add: quiet_def)

lemma quiet_trans: "quiet s t \<Longrightarrow> quiet t u \<Longrightarrow> quiet s u"
  by (simp add: quiet_def)

lemma quiet_draw: "\<not> is_toast e \<Longrightarrow> quiet s (draw e s)"
  by (simp add: quiet_def)

lemma display_charts_tab_quiet: "quiet s (display_charts_tab inp df i s)"
  by (simp add: display_charts_tab_def Let_def quiet_def is_toast_def)

lemma get_query_exec_result_quiet: "quiet s (snd (get_query_exec_result env q s))"
  by (simp add: get_query_exec_result_def cache_data_def run_query_def Let_def quiet_def
      split: option.splits sql_outcome.splits)

lemma display_sql_query_quiet: "quiet s (snd (display_sql_query env inp q i s))"
proof -
  let ?s2 = "draw (Spinner ''Corriendo consulta SQL...'')
      (draw (Expander ''Resultados'') (draw (Code q) (draw (Expander ''SQL Query'') s)))"
  have a: "quiet s ?s2"
    by (simp add: quiet_def is_toast_def)
  have b: "quiet ?s2 (snd (get_query_exec_result env q ?s2))"
    by (rule get_query_exec_result_quiet)
  obtain r t where rt: "get_query_exec_result env q ?s2 = (r, t)"
    by (cases "get_query_exec_result env q ?s2")
  with a b have c: "quiet s t"
    by (auto intro: quiet_trans)
  show ?thesis
    using c rt
    by (cases r)
       (auto simp: display_sql_query_def Let_def and_then_def quiet_def is_toast_def
          display_charts_tab_quiet [unfolded quiet_def] split: option.splits prod.splits)
qed

lemma display_suggestions_quiet: "quiet s (display_suggestions inp sgs i j s)"
proof (induction sgs arbitrary: j s)
  case Nil
  then show ?case by simp
next
  case (Cons x xs)
  have "quiet s (if button_clicked inp (''suggestion_'' @ str_nat i @ ''_'' @ str_nat j)
        then (draw (Button x (''suggestion_'' @ str_nat i @ ''_'' @ str_nat j)) s)\<lparr>active_suggestion := Some x\<rparr>
        else draw (Button x (''suggestion_'' @ str_nat i @ ''_'' @ str_nat j)) s)"
    by (simp add: quiet_def is_toast_def)
  then show ?case
    using Cons.IH by (auto simp: Let_def intro: quiet_trans)
qed

lemma display_item_quiet: "quiet s (snd (display_item env inp item i s))"
  using display_sql_query_quiet [of s env inp _ i] display_suggestions_quiet [of s inp _ i 0]
  by (auto simp: display_item_def and_then_def lift_def quiet_draw is_toast_def
      split: sum.splits prod.splits outcome.splits)

lemma display_items_quiet: "quiet s (snd (display_items env inp items i s))"
proof (induction items arbitrary: s)
  case Nil
  then show ?case by simp
next
  case (Cons x xs)
  obtain r t where rt: "display_item env inp x i s = (r, t)"
    by (cases "display_item env inp x i s")
  with display_item_quiet [of s env inp x i] have "quiet s t" by simp
  with Cons.IH [of t] rt show ?case
    by (cases r) (auto intro: quiet_trans)
qed

lemma display_message_quiet: "quiet s (snd (display_message env inp c i s))"
  using display_items_quiet [of s env inp _ i]
  by (auto simp: display_message_def and_then_def lift_def split: sum.splits)

lemma display_turns_quiet: "quiet s (snd (display_turns env inp ms i s))"
proof (induction ms arbitrary: s i)
  case Nil
  then show ?case by simp
next
  case (Cons m ms)
  let ?s1 = "draw (ChatMessage (role m)) s"
  obtain r t where rt: "display_message env inp (content m) i ?s1 = (r, t)"
    by (cases "display_message env inp (content m) i ?s1")
  with display_message_quiet [of ?s1 env inp "content m" i] have "quiet ?s1 t" by simp
  moreover have "quiet s ?s1" by (simp add: quiet_draw is_toast_def)
  ultimately have "quiet s t" by (rule quiet_trans [rotated])
  with Cons.IH [of t "Suc i"] rt show ?case
    by (cases r) (auto intro: quiet_trans)
qed

lemma display_conversation_quiet: "quiet s (snd (display_conversation env inp s))"
  using display_turns_quiet [of s env inp _ 0]
  by (auto simp: display_conversation_def split: option.splits)

lemma get_analyst_response_quiet: "quiet s (snd (get_analyst_response env msgs s))"
  by (auto simp: get_analyst_response_def Let_def and_then_def lift_def quiet_def
      split: option.splits sum.splits)

lemma get_analyst_response_not_Rerun: "fst (get_analyst_response env msgs s) \<noteq> Rerun"
  by (auto simp: get_analyst_response_def Let_def and_then_def lift_def
      split: option.splits sum.splits)

lemma analyst_message_of_cases:
  "(\<exists>a t'. analyst_message_of r e t = (Return a, t') \<and> messages t' = messages t \<and> screen t' = screen t)
   \<or> (\<exists>x. analyst_message_of r e t = (Raise x, t))"
  by (auto simp: analyst_message_of_def and_then_def lift_def split: option.splits sum.splits)

lemma process_user_input_cases:
  assumes "messages s = Some ms"
  shows "(\<exists>e s'. process_user_input env inp p s = (Raise e, s') \<and>
            messages s' = Some (ms @ [user_message p]) \<and>
            fire_API_error_notify s' = fire_API_error_notify s \<and>
            filter is_toast (screen s') = filter is_toast (screen s))
       \<or> (\<exists>a s'. process_user_input env inp p s = (Rerun, s') \<and>
            messages s' = Some (ms @ [user_message p, a]) \<and>
            filter is_toast (screen s') = filter is_toast (screen s))"
proof -
  let ?t = "asking ms p s"
  have t: "messages ?t = Some (ms @ [user_message p])" "fire_API_error_notify ?t = fire_API_error_notify s"
    "filter is_toast (screen ?t) = filter is_toast (screen s)"
    by (simp_all add: asking_def is_toast_def)
  obtain r t1 where g: "get_analyst_response env (ms @ [user_message p]) ?t = (r, t1)"
    by (cases "get_analyst_response env (ms @ [user_message p]) ?t")
  with get_analyst_response_quiet [of ?t env "ms @ [user_message p]"] t
  have t1: "messages t1 = Some (ms @ [user_message p])" "fire_API_error_notify t1 = fire_API_error_notify s"
    "filter is_toast (screen t1) = filter is_toast (screen s)"
    by (simp_all add: quiet_def)
  from g get_analyst_response_not_Rerun [of env "ms @ [user_message p]" ?t] have nr: "r \<noteq> Rerun"
    by simp
  show ?thesis
  proof (cases r)
    case (Return x)
    obtain body e where x: "x = (body, e)" by (cases x)
    from analyst_message_of_cases [of body e t1] show ?thesis
    proof
      assume "\<exists>a t'. analyst_message_of body e t1 = (Return a, t') \<and> messages t' = messages t1 \<and> screen t' = screen t1"
      then obtain a t' where "analyst_message_of body e t1 = (Return a, t')" "messages t' = messages t1" "screen t' = screen t1"
        by blast
      with g Return x t1 show ?thesis
        by (simp add: process_user_input_unfold [OF assms] and_then_def)
    next
      assume "\<exists>y. analyst_message_of body e t1 = (Raise y, t1)"
      then obtain y where "analyst_message_of body e t1 = (Raise y, t1)" by blast
      with g Return x t1 show ?thesis
        by (simp add: process_user_input_unfold [OF assms] and_then_def)
    qed
  next
    case (Raise e)
    with g t1 show ?thesis
      by (simp add: process_user_input_unfold [OF assms] and_then_def)
  next
    case Rerun
    with nr show ?thesis by simp
  qed
qed

lemma reset_fields [simp]:
  "messages (reset_session_state s) = Some []"
  "fire_API_error_notify (reset_session_state s) = fire_API_error_notify s"
  "screen (reset_session_state s) = screen s"
  "api_log (reset_session_state s) = api_log s"
  "selected_semantic_model_path (reset_session_state s) = selected_semantic_model_path s"
  by (simp_all add: reset_session_state_def)

lemma show_header_and_sidebar_fields:
  "messages (show_header_and_sidebar inp s) = (if clear_clicked inp then Some [] else messages s)"
  "fire_API_error_notify (show_header_and_sidebar inp s) = fire_API_error_notify s"
  "filter is_toast (screen (show_header_and_sidebar inp s)) = filter is_toast (screen s)"
  "api_log (show_header_and_sidebar inp s) = api_log s"
  "selected_semantic_model_path (show_header_and_sidebar inp s) = Some (semantic_model_choice inp)"
  by (simp_all add: show_header_and_sidebar_def Let_def is_toast_def)

lemma handle_error_notifications_messages [simp]:
  "messages (handle_error_notifications s) = messages s"
  by (simp add: handle_error_notifications_def)

lemma process_user_input_not_Return:
  "fst (process_user_input env inp p s) \<noteq> Return u"
proof (cases "messages s")
  case None
  then show ?thesis by (simp add: process_user_input_def)
next
  case (Some ms)
  from process_user_input_cases [OF Some, of env inp p] show ?thesis by auto
qed

lemma handle_user_inputs_cases:
  assumes "messages s = Some ms"
  shows "(handle_user_inputs env inp s = (Return (), draw (ChatInput ([CHR 0xC2, CHR 0xBF] @ ''Cual es tu pregunta?'')) s))
       \<or> (\<exists>e s'. handle_user_inputs env inp s = (Raise e, s') \<and>
             (\<exists>more. messages s' = Some (ms @ more)) \<and>
             fire_API_error_notify s' = fire_API_error_notify s \<and>
             filter is_toast (screen s') = filter is_toast (screen s))
       \<or> (\<exists>s'. handle_user_inputs env inp s = (Rerun, s') \<and>
             (\<exists>more. messages s' = Some (ms @ more)) \<and>
             filter is_toast (screen s') = filter is_toast (screen s))"
proof -
  let ?s1 = "draw (ChatInput ([CHR 0xC2, CHR 0xBF] @ ''Cual es tu pregunta?'')) s"
  have s1: "messages ?s1 = Some ms" "fire_API_error_notify ?s1 = fire_API_error_notify s"
    "filter is_toast (screen ?s1) = filter is_toast (screen s)"
    using assms by (simp_all add: is_toast_def)
  have pui: "(\<exists>e s'. process_user_input env inp p t = (Raise e, s') \<and>
             (\<exists>more. messages s' = Some (ms @ more)) \<and>
             fire_API_error_notify s' = fire_API_error_notify s \<and>
             filter is_toast (screen s') = filter is_toast (screen s))
       \<or> (\<exists>s'. process_user_input env inp p t = (Rerun, s') \<and>
             (\<exists>more. messages s' = Some (ms @ more)) \<and>
             filter is_toast (screen s') = filter is_toast (screen s))"
    if t: "messages t = Some ms" "fire_API_error_notify t = fire_API_error_notify s"
      "filter is_toast (screen t) = filter is_toast (screen s)" for p and t :: state
    using process_user_input_cases [OF t(1), of env inp p] t(2,3) by auto
  show ?thesis
  proof (cases "\<exists>c cs. chat_input inp = Some (c # cs)")
    case True
    then obtain c cs where "chat_input inp = Some (c # cs)" by blast
    then have "handle_user_inputs env inp s = process_user_input env inp (JStr (c # cs)) ?s1"
      by (simp add: handle_user_inputs_def Let_def)
    with pui [OF s1, of "JStr (c # cs)"] show ?thesis by auto
  next
    case False
    then have h: "handle_user_inputs env inp s =
        (case active_suggestion ?s1 of
                None \<Rightarrow> (Raise (AttributeError ''active_suggestion''), ?s1)
              | Some suggestion \<Rightarrow>
                  if suggestion = JNull then (Return (), ?s1)
                  else process_user_input env inp suggestion (?s1\<lparr>active_suggestion := Some JNull\<rparr>))"
      unfolding handle_user_inputs_def Let_def
      by (cases "chat_input inp"; cases "the (chat_input inp)") simp_all
    show ?thesis
    proof (cases "active_suggestion ?s1")
      case None
      with h s1 show ?thesis by auto
    next
      case (Some sg)
      have t: "messages (?s1\<lparr>active_suggestion := Some JNull\<rparr>) = Some ms"
        "fire_API_error_notify (?s1\<lparr>active_suggestion := Some JNull\<rparr>) = fire_API_error_notify s"
        "filter is_toast (screen (?s1\<lparr>active_suggestion := Some JNull\<rparr>)) = filter is_toast (screen s)"
        using s1 by simp_all
      show ?thesis
      proof (cases "sg = JNull")
        case True
        with h Some show ?thesis by simp
      next
        case False
        with h Some have "handle_user_inputs env inp s =
            process_user_input env inp sg (?s1\<lparr>active_suggestion := Some JNull\<rparr>)"
          by simp
        with pui [OF t, of sg] show ?thesis by auto
      qed
    qed
  qed
qed


lemma main_cases:
  fixes s :: state and inp :: ui_inputs
  defines "s2 \<equiv> show_header_and_sidebar inp (if messages s = None then reset_session_state s else s)"
  shows "\<exists>ms2. messages s2 = Some ms2 \<and>
     ((\<exists>t. main env inp s = (Return (), handle_error_notifications t) \<and>
           messages t = Some ms2 \<and> ms2 \<noteq> [] \<and>
           fire_API_error_notify t = fire_API_error_notify s \<and>
           filter is_toast (screen t) = filter is_toast (screen s))
      \<or> (\<exists>e s'. main env inp s = (Raise e, s') \<and>
             (\<exists>more. messages s' = Some (ms2 @ more)) \<and>
             fire_API_error_notify s' = fire_API_error_notify s \<and>
             filter is_toast (screen s') = filter is_toast (screen s))
      \<or> (\<exists>s'. main env inp s = (Rerun, s') \<and>
             (\<exists>more. messages s' = Some (ms2 @ more)) \<and>
             filter is_toast (screen s') = filter is_toast (screen s)))"
proof -
  have "\<exists>ms2. messages s2 = Some ms2"
    by (cases "messages s") (simp_all add: s2_def show_header_and_sidebar_fields)
  then obtain ms2 where ms2: "messages s2 = Some ms2" by blast
  have f2: "fire_API_error_notify s2 = fire_API_error_notify s"
    "filter is_toast (screen s2) = filter is_toast (screen s)"
    by (simp_all add: s2_def show_header_and_sidebar_fields)
  let ?rest = "\<lambda>_::unit. and_then (display_conversation env inp)
           (\<lambda>_. and_then (handle_user_inputs env inp)
           (\<lambda>_ t. (Return (), handle_error_notifications t)))"
  have m: "main env inp s =
      and_then (\<lambda>t. case messages t of
                   None \<Rightarrow> (Raise (AttributeError ''messages''), t)
                 | Some ms \<Rightarrow>
                     if length ms = 0 then process_user_input env inp (JStr BOOTSTRAP_PROMPT) t
                     else (Return (), t)) ?rest s2"
    by (simp add: main_def Let_def s2_def)
  show ?thesis
  proof (cases "ms2 = []")
    case True
    from process_user_input_cases [OF ms2, of env inp "JStr BOOTSTRAP_PROMPT"]
    have "(\<exists>e s'. main env inp s = (Raise e, s') \<and>
             (\<exists>more. messages s' = Some (ms2 @ more)) \<and>
             fire_API_error_notify s' = fire_API_error_notify s \<and>
             filter is_toast (screen s') = filter is_toast (screen s))
      \<or> (\<exists>s'. main env inp s = (Rerun, s') \<and>
             (\<exists>more. messages s' = Some (ms2 @ more)) \<and>
             filter is_toast (screen s') = filter is_toast (screen s))"
      using True ms2 f2 by (auto simp: m and_then_def)
    with ms2 show ?thesis by blast
  next
    case False
    obtain r t1 where d: "display_conversation env inp s2 = (r, t1)"
      by (cases "display_conversation env inp s2")
    with display_conversation_quiet [of s2 env inp] ms2 f2
    have t1: "messages t1 = Some ms2" "fire_API_error_notify t1 = fire_API_error_notify s"
      "filter is_toast (screen t1) = filter is_toast (screen s)"
      by (simp_all add: quiet_def)
    have m2: "main env inp s =
        and_then (display_conversation env inp)
           (\<lambda>_. and_then (handle_user_inputs env inp)
           (\<lambda>_ t. (Return (), handle_error_notifications t))) s2"
      using False ms2 by (simp add: m and_then_def)
    show ?thesis
    proof (cases r)
      case (Return u)
      with d have m3: "main env inp s =
          and_then (handle_user_inputs env inp) (\<lambda>_ t. (Return (), handle_error_notifications t)) t1"
        by (simp add: m2 and_then_def)
      let ?t = "draw (ChatInput ([CHR 0xC2, CHR 0xBF] @ ''Cual es tu pregunta?'')) t1"
      from handle_user_inputs_cases [OF t1(1), of env inp]
      consider (ret) "handle_user_inputs env inp t1 = (Return (), ?t)"
        | (raised) e s' where "handle_user_inputs env inp t1 = (Raise e, s')"
            "\<exists>more. messages s' = Some (ms2 @ more)"
            "fire_API_error_notify s' = fire_API_error_notify t1"
            "filter is_toast (screen s') = filter is_toast (screen t1)"
        | (rerun) s' where "handle_user_inputs env inp t1 = (Rerun, s')"
            "\<exists>more. messages s' = Some (ms2 @ more)"
            "filter is_toast (screen s') = filter is_toast (screen t1)"
        by blast
      then show ?thesis
      proof cases
        case ret
        then have "main env inp s = (Return (), handle_error_notifications ?t)"
          by (simp add: m3 and_then_def)
        moreover have "messages ?t = Some ms2" "fire_API_error_notify ?t = fire_API_error_notify s"
          "filter is_toast (screen ?t) = filter is_toast (screen s)"
          using t1 by (simp_all add: is_toast_def)
        ultimately show ?thesis using ms2 False by blast
      next
        case raised
        then have "main env inp s = (Raise e, s')"
          by (simp add: m3 and_then_def)
        with raised t1 ms2 show ?thesis by auto
      next
        case rerun
        then have "main env inp s = (Rerun, s')"
          by (simp add: m3 and_then_def)
        with rerun t1 ms2 show ?thesis by auto
      qed
    next
      case (Raise e)
      with d have "main env inp s = (Raise e, t1)"
        by (simp add: m2 and_then_def)
      with t1 ms2 show ?thesis by auto
    next
      case Rerun
      with d have "main env inp s = (Rerun, t1)"
        by (simp add: m2 and_then_def)
      with t1 ms2 show ?thesis by auto
    qed
  qed
qed

lemma analyst_message_of_role:
  "analyst_message_of r e t = (Return a, t') \<Longrightarrow> role a = ''analyst''"
  by (auto simp: analyst_message_of_def and_then_def lift_def split: option.splits sum.splits)

lemma process_user_input_shape:
  assumes "messages s = Some ms"
  shows "(\<exists>e. fst (process_user_input env inp p s) = Raise e \<and>
            messages (snd (process_user_input env inp p s)) = Some (ms @ [user_message p]))
       \<or> (\<exists>a. fst (process_user_input env inp p s) = Rerun \<and>
            messages (snd (process_user_input env inp p s)) = Some (ms @ [user_message p, a]) \<and>
            role a = ''analyst'')"
proof -
  let ?t = "asking ms p s"
  obtain r t1 where g: "get_analyst_response env (ms @ [user_message p]) ?t = (r, t1)"
    by (cases "get_analyst_response env (ms @ [user_message p]) ?t")
  with get_analyst_response_quiet [of ?t env "ms @ [user_message p]"]
  have t1: "messages t1 = Some (ms @ [user_message p])"
    by (simp add: quiet_def asking_def)
  from g get_analyst_response_not_Rerun [of env "ms @ [user_message p]" ?t] have nr: "r \<noteq> Rerun"
    by simp
  show ?thesis
  proof (cases r)
    case (Return x)
    obtain body e where x: "x = (body, e)" by (cases x)
    obtain r2 t2 where am: "analyst_message_of body e t1 = (r2, t2)"
      by (cases "analyst_message_of body e t1")
    from analyst_message_of_cases [of body e t1] am
    have t2: "messages t2 = Some (ms @ [user_message p])" "r2 \<noteq> Rerun"
      using t1 by auto
    show ?thesis
    proof (cases r2)
      case (Return a)
      with am have "role a = ''analyst''" by (auto dest: analyst_message_of_role)
      with g \<open>r = Return x\<close> x am Return t2 show ?thesis
        by (simp add: process_user_input_unfold [OF assms] and_then_def)
    next
      case (Raise y)
      with g \<open>r = Return x\<close> x am t2 show ?thesis
        by (simp add: process_user_input_unfold [OF assms] and_then_def)
    next
      case Rerun
      with t2 show ?thesis by simp
    qed
  next
    case (Raise e)
    with g t1 show ?thesis
      by (simp add: process_user_input_unfold [OF assms] and_then_def)
  next
    case Rerun
    with nr show ?thesis by simp
  qed
qed

lemma digit_char_cases:
  assumes "d < 10"
  shows "digit_char d \<in> set ''0123456789'' \<and> digit_value (digit_char d) = d \<and>
         (d \<noteq> 0 \<longrightarrow> digit_char d \<noteq> CHR ''0'')"
proof -
  from assms have "d = 0 \<or> d = 1 \<or> d = 2 \<or> d = 3 \<or> d = 4 \<or> d = 5 \<or> d = 6 \<or> d = 7 \<or> d = 8 \<or> d = 9"
    by arith
  then show ?thesis
    by (auto simp: digit_char_def digit_value_def)
qed

lemma decimal_value_snoc: "decimal_value (ds @ [c]) = 10 * decimal_value ds + digit_value c"
  by (simp add: decimal_value_def)

lemma str_nat_decimal:
  "decimal_value (str_nat n) = n \<and> set (str_nat n) \<subseteq> set ''0123456789'' \<and>
   str_nat n \<noteq> [] \<and> (n \<noteq> 0 \<longrightarrow> hd (str_nat n) \<noteq> CHR ''0'')"
proof (induction n rule: str_nat.induct)
  case (1 n)
  show ?case
  proof (cases "n < 10")
    case True
    with digit_char_cases [of n] show ?thesis
      by (simp add: str_nat.simps [of n] decimal_value_def)
  next
    case False
    then have d: "n mod 10 < 10" and q: "n div 10 \<noteq> 0" by simp_all
    from "1.IH" [OF False] q have ih: "decimal_value (str_nat (n div 10)) = n div 10"
      "set (str_nat (n div 10)) \<subseteq> set ''0123456789''" "str_nat (n div 10) \<noteq> []"
      "hd (str_nat (n div 10)) \<noteq> CHR ''0''"
      by simp_all
    have s: "str_nat n = str_nat (n div 10) @ [digit_char (n mod 10)]"
      using False by (simp add: str_nat.simps [of n])
    from digit_char_cases [OF d] ih show ?thesis
      unfolding s by (simp add: decimal_value_snoc)
  qed
qed

lemma str_int_decimal:
  assumes "0 \<le> i"
  shows "int (decimal_value (str_int i)) = i" "set (str_int i) \<subseteq> set ''0123456789''"
    "i \<noteq> 0 \<Longrightarrow> hd (str_int i) \<noteq> CHR ''0''"
  using assms str_nat_decimal [of "nat i"] by (simp_all add: str_int_def)


lemma get_query_exec_result_not_Rerun: "fst (get_query_exec_result env q s) \<noteq> Rerun"
  by (simp add: get_query_exec_result_def cache_data_def run_query_def Let_def
      split: option.splits sql_outcome.splits)

lemma display_sql_query_not_Rerun: "fst (display_sql_query env inp q i s) \<noteq> Rerun"
proof -
  let ?s2 = "draw (Spinner ''Corriendo consulta SQL...'')
      (draw (Expander ''Resultados'') (draw (Code q) (draw (Expander ''SQL Query'') s)))"
  obtain r t where rt: "get_query_exec_result env q ?s2 = (r, t)"
    by (cases "get_query_exec_result env q ?s2")
  with get_query_exec_result_not_Rerun [of env q ?s2] have "r \<noteq> Rerun" by simp
  with rt show ?thesis
    by (cases r) (simp_all add: display_sql_query_def Let_def and_then_def split: option.splits)
qed

lemma display_item_not_Rerun: "fst (display_item env inp item i s) \<noteq> Rerun"
  using display_sql_query_not_Rerun [of env inp _ i s]
  by (auto simp: display_item_def and_then_def lift_def split: sum.splits prod.splits outcome.splits)

lemma display_items_not_Rerun: "fst (display_items env inp items i s) \<noteq> Rerun"
proof (induction items arbitrary: s)
  case Nil
  then show ?case by simp
next
  case (Cons x xs)
  obtain r t where rt: "display_item env inp x i s = (r, t)"
    by (cases "display_item env inp x i s")
  with display_item_not_Rerun [of env inp x i s] have "r \<noteq> Rerun" by simp
  with rt Cons.IH [of t] show ?case by (cases r) simp_all
qed

lemma display_message_not_Rerun: "fst (display_message env inp c i s) \<noteq> Rerun"
  using display_items_not_Rerun [of env inp _ i s]
  by (auto simp: display_message_def and_then_def lift_def split: sum.splits)

lemma display_turns_not_Rerun: "fst (display_turns env inp ms i s) \<noteq> Rerun"
proof (induction ms arbitrary: s i)
  case Nil
  then show ?case by simp
next
  case (Cons m ms)
  let ?s1 = "draw (ChatMessage (role m)) s"
  obtain r t where rt: "display_message env inp (content m) i ?s1 = (r, t)"
    by (cases "display_message env inp (content m) i ?s1")
  with display_message_not_Rerun [of env inp "content m" i ?s1] have "r \<noteq> Rerun" by simp
  with rt Cons.IH [of "Suc i" t] show ?case by (cases r) simp_all
qed

lemma display_conversation_not_Rerun: "fst (display_conversation env inp s) \<noteq> Rerun"
  using display_turns_not_Rerun [of env inp _ 0 s]
  by (auto simp: display_conversation_def split: option.splits)

lemma display_suggestions_no_click:
  "\<forall>key. \<not> button_clicked inp key \<Longrightarrow>
   active_suggestion (display_suggestions inp sgs i j s) = active_suggestion s"
  by (induction sgs arbitrary: j s) (simp_all add: Let_def)

lemma display_charts_tab_active_suggestion:
  "active_suggestion (display_charts_tab inp df i s) = active_suggestion s"
  by (simp add: display_charts_tab_def Let_def)

lemma get_query_exec_result_active_suggestion:
  "active_suggestion (snd (get_query_exec_result env q s)) = active_suggestion s"
  by (simp add: get_query_exec_result_def cache_data_def run_query_def Let_def
      split: option.splits sql_outcome.splits)

lemma display_sql_query_active_suggestion:
  "active_suggestion (snd (display_sql_query env inp q i s)) = active_suggestion s"
proof -
  let ?s2 = "draw (Spinner ''Corriendo consulta SQL...'')
      (draw (Expander ''Resultados'') (draw (Code q) (draw (Expander ''SQL Query'') s)))"
  obtain r t where rt: "get_query_exec_result env q ?s2 = (r, t)"
    by (cases "get_query_exec_result env q ?s2")
  with get_query_exec_result_active_suggestion [of env q ?s2]
  have "active_suggestion t = active_suggestion s" by simp
  with rt show ?thesis
    by (cases r)
       (simp_all add: display_sql_query_def Let_def and_then_def display_charts_tab_active_suggestion
          split: option.splits)
qed

lemma display_item_no_click:
  assumes "\<forall>key. \<not> button_clicked inp key"
  shows "active_suggestion (snd (display_item env inp item i s)) = active_suggestion s"
  using display_sql_query_active_suggestion [of env inp _ i s]
    display_suggestions_no_click [OF assms, of _ i 0 s]
  by (auto simp: display_item_def and_then_def lift_def split: sum.splits prod.splits outcome.splits)

lemma display_items_no_click:
  assumes "\<forall>key. \<not> button_clicked inp key"
  shows "active_suggestion (snd (display_items env inp items i s)) = active_suggestion s"
proof (induction items arbitrary: s)
  case Nil
  then show ?case by simp
next
  case (Cons x xs)
  obtain r t where rt: "display_item env inp x i s = (r, t)"
    by (cases "display_item env inp x i s")
  with display_item_no_click [OF assms, of env x i s] have "active_suggestion t = active_suggestion s"
    by simp
  with rt Cons.IH [of t] show ?case by (cases r) simp_all
qed

lemma display_message_no_click:
  assumes "\<forall>key. \<not> button_clicked inp key"
  shows "active_suggestion (snd (display_message env inp c i s)) = active_suggestion s"
  using display_items_no_click [OF assms, of env _ i s]
  by (auto simp: display_message_def and_then_def lift_def split: sum.splits)

lemma display_turns_no_click:
  assumes "\<forall>key. \<not> button_clicked inp key"
  shows "active_suggestion (snd (display_turns env inp ms i s)) = active_suggestion s"
proof (induction ms arbitrary: s i)
  case Nil
  then show ?case by simp
next
  case (Cons m ms)
  let ?s1 = "draw (ChatMessage (role m)) s"
  obtain r t where rt: "display_message env inp (content m) i ?s1 = (r, t)"
    by (cases "display_message env inp (content m) i ?s1")
  with display_message_no_click [OF assms, of env "content m" i ?s1]
  have "active_suggestion t = active_suggestion s" by simp
  with rt Cons.IH [of "Suc i" t] show ?case by (cases r) simp_all
qed

lemma display_conversation_no_click:
  assumes "\<forall>key. \<not> button_clicked inp key"
  shows "active_suggestion (snd (display_conversation env inp s)) = active_suggestion s"
  using display_turns_no_click [OF assms, of env _ 0 s]
  by (auto simp: display_conversation_def split: option.splits)

lemma get_analyst_response_keeps:
  "active_suggestion (snd (get_analyst_response env msgs s)) = active_suggestion s"
  "selected_semantic_model_path s = Some path \<Longrightarrow>
     api_log (snd (get_analyst_response env msgs s)) = api_log s @ [analyst_request msgs path]"
  by (auto simp: get_analyst_response_def Let_def and_then_def lift_def
      split: option.splits sum.splits)

lemma analyst_message_of_keeps:
  "active_suggestion (snd (analyst_message_of r e t)) = active_suggestion t"
  "api_log (snd (analyst_message_of r e t)) = api_log t"
  by (auto simp: analyst_message_of_def and_then_def lift_def split: option.splits sum.splits)

lemma process_user_input_keeps:
  assumes "messages s = Some ms"
  shows "active_suggestion (snd (process_user_input env inp p s)) = active_suggestion s"
    and "selected_semantic_model_path s = Some path \<Longrightarrow>
         api_log (snd (process_user_input env inp p s)) =
           api_log s @ [analyst_request (ms @ [user_message p]) path]"
proof -
  let ?t = "asking ms p s"
  obtain r t1 where g: "get_analyst_response env (ms @ [user_message p]) ?t = (r, t1)"
    by (cases "get_analyst_response env (ms @ [user_message p]) ?t")
  with get_analyst_response_keeps(1) [where env = env and msgs = "ms @ [user_message p]" and s = ?t]
    get_analyst_response_keeps(2) [where env = env and msgs = "ms @ [user_message p]" and s = ?t and path = path]
  have t1: "active_suggestion t1 = active_suggestion s"
    "selected_semantic_model_path s = Some path \<Longrightarrow>
       api_log t1 = api_log s @ [analyst_request (ms @ [user_message p]) path]"
    by (simp_all add: asking_def)
  have "active_suggestion (snd (process_user_input env inp p s)) = active_suggestion s \<and>
    (selected_semantic_model_path s = Some path \<longrightarrow>
         api_log (snd (process_user_input env inp p s)) =
           api_log s @ [analyst_request (ms @ [user_message p]) path])"
  proof (cases r)
    case (Return x)
    obtain body e where x: "x = (body, e)" by (cases x)
    obtain r2 t2 where am: "analyst_message_of body e t1 = (r2, t2)"
      by (cases "analyst_message_of body e t1")
    with analyst_message_of_keeps [where r = body and e = e and t = t1] t1
    have t2: "active_suggestion t2 = active_suggestion s"
      "selected_semantic_model_path s = Some path \<longrightarrow>
       api_log t2 = api_log s @ [analyst_request (ms @ [user_message p]) path]"
      by simp_all
    from g Return x am t2 show ?thesis
      by (cases r2)
         (auto simp: process_user_input_unfold [OF assms] and_then_def split: option.splits)
  next
    case (Raise e)
    with g t1 show ?thesis
      by (simp add: process_user_input_unfold [OF assms] and_then_def)
  next
    case Rerun
    with g t1 show ?thesis
      by (simp add: process_user_input_unfold [OF assms] and_then_def)
  qed
  then show "active_suggestion (snd (process_user_input env inp p s)) = active_suggestion s"
    and "selected_semantic_model_path s = Some path \<Longrightarrow>
         api_log (snd (process_user_input env inp p s)) =
           api_log s @ [analyst_request (ms @ [user_message p]) path]"
    by simp_all
qed

lemma script_run_cases:
  fixes s :: state and inp :: ui_inputs
  assumes ms: "messages s = Some ms" and nc: "\<not> clear_clicked inp"
  defines "s2 \<equiv> show_header_and_sidebar inp (s\<lparr>screen := []\<rparr>)"
  shows "messages s2 = Some ms"
    and "selected_semantic_model_path s2 = Some (semantic_model_choice inp)"
    and "ms = [] \<Longrightarrow>
         script_run env False inp s = process_user_input env inp (JStr BOOTSTRAP_PROMPT) s2"
    and "ms \<noteq> [] \<Longrightarrow> display_conversation env inp s2 = (Raise e, t1) \<Longrightarrow>
         script_run env False inp s = (Raise e, t1) \<and> messages t1 = Some ms"
    and "ms \<noteq> [] \<Longrightarrow> display_conversation env inp s2 = (Return (), t1) \<Longrightarrow>
         messages t1 = Some ms \<and>
         selected_semantic_model_path t1 = Some (semantic_model_choice inp) \<and>
         script_run env False inp s =
           and_then (handle_user_inputs env inp) (\<lambda>_ t. (Return (), handle_error_notifications t)) t1"
proof -
  show m2: "messages s2 = Some ms"
    using ms nc by (simp add: s2_def show_header_and_sidebar_fields)
  show p2: "selected_semantic_model_path s2 = Some (semantic_model_choice inp)"
    by (simp add: s2_def show_header_and_sidebar_fields)
  have m: "script_run env False inp s =
      and_then (\<lambda>t. case messages t of
                   None \<Rightarrow> (Raise (AttributeError ''messages''), t)
                 | Some ms \<Rightarrow>
                     if length ms = 0 then process_user_input env inp (JStr BOOTSTRAP_PROMPT) t
                     else (Return (), t))
        (\<lambda>_. and_then (display_conversation env inp)
           (\<lambda>_. and_then (handle_user_inputs env inp)
           (\<lambda>_ t. (Return (), handle_error_notifications t)))) s2"
    using ms by (simp add: script_run_def main_def Let_def s2_def)
  show "script_run env False inp s = process_user_input env inp (JStr BOOTSTRAP_PROMPT) s2"
    if "ms = []"
  proof (cases "process_user_input env inp (JStr BOOTSTRAP_PROMPT) s2")
    case (Pair r t)
    with process_user_input_not_Return [of env inp "JStr BOOTSTRAP_PROMPT" s2 "()"] m2 that
    show ?thesis by (cases r) (simp_all add: m and_then_def)
  qed
  have m': "script_run env False inp s =
        and_then (display_conversation env inp)
           (\<lambda>_. and_then (handle_user_inputs env inp)
           (\<lambda>_ t. (Return (), handle_error_notifications t))) s2" if "ms \<noteq> []"
    using that m2 by (simp add: m and_then_def)
  show "script_run env False inp s = (Raise e, t1) \<and> messages t1 = Some ms"
    if "ms \<noteq> []" and d: "display_conversation env inp s2 = (Raise e, t1)"
    using display_conversation_quiet [of s2 env inp] d m2
    by (simp add: m' [OF that(1)] and_then_def quiet_def)
  show "messages t1 = Some ms \<and>
         selected_semantic_model_path t1 = Some (semantic_model_choice inp) \<and>
         script_run env False inp s =
           and_then (handle_user_inputs env inp) (\<lambda>_ t. (Return (), handle_error_notifications t)) t1"
    if "ms \<noteq> []" and d: "display_conversation env inp s2 = (Return (), t1)"
    using display_conversation_quiet [of s2 env inp] d m2 p2
    by (simp add: m' [OF that(1)] and_then_def quiet_def)
qed

lemma handle_user_inputs_typed:
  "chat_input inp = Some (c # cs) \<Longrightarrow>
   handle_user_inputs env inp t =
     process_user_input env inp (JStr (c # cs))
       (draw (ChatInput ([CHR 0xC2, CHR 0xBF] @ ''Cual es tu pregunta?'')) t)"
  by (simp add: handle_user_inputs_def Let_def)

lemma handle_user_inputs_not_typed:
  assumes "chat_input inp = None \<or> chat_input inp = Some []"
  shows "handle_user_inputs env inp t =
     (case active_suggestion t of
        None \<Rightarrow> (Raise (AttributeError ''active_suggestion''),
                 draw (ChatInput ([CHR 0xC2, CHR 0xBF] @ ''Cual es tu pregunta?'')) t)
      | Some suggestion \<Rightarrow>
          if suggestion = JNull
          then (Return (), draw (ChatInput ([CHR 0xC2, CHR 0xBF] @ ''Cual es tu pregunta?'')) t)
          else process_user_input env inp suggestion
                 ((draw (ChatInput ([CHR 0xC2, CHR 0xBF] @ ''Cual es tu pregunta?'')) t)
                    \<lparr>active_suggestion := Some JNull\<rparr>))"
  using assms by (cases "active_suggestion t") (auto simp: handle_user_inputs_def Let_def)

lemma and_then_process_user_input:
  "and_then (\<lambda>t. process_user_input env inp p (g t)) f t1 = process_user_input env inp p (g t1)"
proof (cases "process_user_input env inp p (g t1)")
  case (Pair r t)
  with process_user_input_not_Return [of env inp p "g t1" "()"] show ?thesis
    by (cases r) (simp_all add: and_then_def)
qed

lemma process_user_input_step:
  assumes "messages t = Some ms" and "selected_semantic_model_path t = Some path"
  shows "\<exists>more. messages (snd (process_user_input env inp p t)) = Some (ms @ more) \<and>
    (case fst (process_user_input env inp p t) of
       Rerun \<Rightarrow> length more = 2
     | Raise e \<Rightarrow> length more \<le> 1 \<and>
         ((\<forall>n request. reply_ok env (send_snow_api_request env n request)) \<longrightarrow> more = [])
     | Return u \<Rightarrow> more = [])"
proof -
  from process_user_input_shape [OF assms(1), of env inp p] show ?thesis
  proof
    assume raised: "\<exists>e. fst (process_user_input env inp p t) = Raise e \<and>
        messages (snd (process_user_input env inp p t)) = Some (ms @ [user_message p])"
    have "\<not> (\<forall>n request. reply_ok env (send_snow_api_request env n request))"
    proof
      assume "\<forall>n request. reply_ok env (send_snow_api_request env n request)"
      then have "reply_ok env (send_snow_api_request env (length (api_log t))
          (analyst_request (ms @ [user_message p]) path))"
        by blast
      from process_user_input_reply_ok [OF assms this, of inp] raised show False by auto
    qed
    moreover from raised obtain e where "fst (process_user_input env inp p t) = Raise e"
      "messages (snd (process_user_input env inp p t)) = Some (ms @ [user_message p])"
      by blast
    ultimately show ?thesis
      by (intro exI [of _ "[user_message p]"]) simp
  next
    assume "\<exists>a. fst (process_user_input env inp p t) = Rerun \<and>
        messages (snd (process_user_input env inp p t)) = Some (ms @ [user_message p, a]) \<and>
        role a = ''analyst''"
    then show ?thesis by auto
  qed
qed

lemma script_run_step:
  assumes ms: "messages s = Some ms" and nc: "\<not> clear_clicked inp"
  shows "\<exists>more. messages (snd (script_run env False inp s)) = Some (ms @ more) \<and>
    (case fst (script_run env False inp s) of
       Rerun \<Rightarrow> length more = 2
     | Raise e \<Rightarrow> length more \<le> 1 \<and>
         ((\<forall>n request. reply_ok env (send_snow_api_request env n request)) \<longrightarrow> more = [])
     | Return u \<Rightarrow> more = [])"
proof -
  let ?s2 = "show_header_and_sidebar inp (s\<lparr>screen := []\<rparr>)"
  let ?ci = "draw (ChatInput ([CHR 0xC2, CHR 0xBF] @ ''Cual es tu pregunta?''))"
  note c = script_run_cases [OF ms nc]
  show ?thesis
  proof (cases "ms = []")
    case True
    from c(3) [OF True] process_user_input_step [OF c(1) c(2), of env inp "JStr BOOTSTRAP_PROMPT"]
    show ?thesis by simp
  next
    case False
    obtain r t1 where d: "display_conversation env inp ?s2 = (r, t1)"
      by (cases "display_conversation env inp ?s2")
    show ?thesis
    proof (cases r)
      case (Return u)
      with d have d': "display_conversation env inp ?s2 = (Return (), t1)" by simp
      note t1 = c(5) [OF False d']
      show ?thesis
      proof (cases "\<exists>c cs. chat_input inp = Some (c # cs)")
        case True
        then obtain c cs where "chat_input inp = Some (c # cs)" by blast
        then have h: "handle_user_inputs env inp = (\<lambda>t. process_user_input env inp (JStr (c # cs)) (?ci t))"
          by (auto simp: handle_user_inputs_typed)
        have run: "script_run env False inp s = process_user_input env inp (JStr (c # cs)) (?ci t1)"
          using t1 by (simp add: h and_then_process_user_input)
        have "messages (?ci t1) = Some ms" "selected_semantic_model_path (?ci t1) = Some (semantic_model_choice inp)"
          using t1 by simp_all
        from process_user_input_step [OF this, of env inp "JStr (c # cs)"] run show ?thesis by simp
      next
        case False
        then have nt: "chat_input inp = None \<or> chat_input inp = Some []"
          by (cases "chat_input inp"; cases "the (chat_input inp)") auto
        note h = handle_user_inputs_not_typed [OF nt, of env t1]
        show ?thesis
        proof (cases "active_suggestion t1")
          case None
          with h t1 show ?thesis by (simp add: and_then_def)
        next
          case (Some sg)
          show ?thesis
          proof (cases "sg = JNull")
            case True
            with h Some t1 show ?thesis by (simp add: and_then_def)
          next
            case False
            let ?t = "(?ci t1)\<lparr>active_suggestion := Some JNull\<rparr>"
            from h Some False have hh: "handle_user_inputs env inp t1 = process_user_input env inp sg ?t"
              by simp
            have run: "script_run env False inp s = process_user_input env inp sg ?t"
            proof (cases "process_user_input env inp sg ?t")
              case (Pair r' t')
              with process_user_input_not_Return [of env inp sg ?t "()"] hh t1 show ?thesis
                by (cases r') (simp_all add: and_then_def)
            qed
            have "messages ?t = Some ms" "selected_semantic_model_path ?t = Some (semantic_model_choice inp)"
              using t1 by simp_all
            from process_user_input_step [OF this, of env inp sg] run show ?thesis by simp
          qed
        qed
      qed
    next
      case (Raise e)
      with d have "display_conversation env inp ?s2 = (Raise e, t1)" by simp
      from c(4) [OF False this] show ?thesis by simp
    next
      case Rerun
      with d display_conversation_not_Rerun [of env inp ?s2] show ?thesis by simp
    qed
  qed
qed

lemma run_session_grows:
  assumes "\<forall>run \<in> set runs. \<not> fst run \<and> \<not> clear_clicked (snd run)"
  shows "messages s = Some ms \<Longrightarrow>
     \<exists>more. messages (snd (run_session env runs s)) = Some (ms @ more) \<and>
       2 * length (filter (\<lambda>r. r = Rerun) (fst (run_session env runs s))) \<le> length more \<and>
       length more \<le> 2 * length (filter (\<lambda>r. r = Rerun) (fst (run_session env runs s))) +
                       length (filter (\<lambda>r. r \<noteq> Rerun \<and> r \<noteq> Return ()) (fst (run_session env runs s))) \<and>
       ((\<forall>n request. reply_ok env (send_snow_api_request env n request)) \<longrightarrow>
          length more = 2 * length (filter (\<lambda>r. r = Rerun) (fst (run_session env runs s))))"
  using assms
proof (induction runs arbitrary: s ms)
  case Nil
  then show ?case by simp
next
  case (Cons run runs)
  obtain chg inp where run: "run = (chg, inp)" by (cases run)
  with Cons.prems have nr: "\<not> chg" "\<not> clear_clicked inp"
    and rest: "\<forall>run \<in> set runs. \<not> fst run \<and> \<not> clear_clicked (snd run)"
    by auto
  obtain r s' where step: "script_run env False inp s = (r, s')"
    by (cases "script_run env False inp s")
  from script_run_step [OF Cons.prems(1) nr(2), of env] step obtain m1 where m1:
    "messages s' = Some (ms @ m1)"
    "case r of Rerun \<Rightarrow> length m1 = 2
     | Raise e \<Rightarrow> length m1 \<le> 1 \<and>
         ((\<forall>n request. reply_ok env (send_snow_api_request env n request)) \<longrightarrow> m1 = [])
     | Return u \<Rightarrow> m1 = []"
    by auto
  obtain rs s'' where tail: "run_session env runs s' = (rs, s'')"
    by (cases "run_session env runs s'")
  from Cons.IH [OF m1(1) rest] tail obtain m2 where m2:
    "messages s'' = Some ((ms @ m1) @ m2)"
    "2 * length (filter (\<lambda>r. r = Rerun) rs) \<le> length m2"
    "length m2 \<le> 2 * length (filter (\<lambda>r. r = Rerun) rs) +
                       length (filter (\<lambda>r. r \<noteq> Rerun \<and> r \<noteq> Return ()) rs)"
    "(\<forall>n request. reply_ok env (send_snow_api_request env n request)) \<longrightarrow>
          length m2 = 2 * length (filter (\<lambda>r. r = Rerun) rs)"
    by auto
  have whole: "run_session env (run # runs) s = (r # rs, s'')"
    using run nr(1) step tail by simp
  show ?case
    unfolding whole
    using m1(2) m2
    by (intro exI [of _ "m1 @ m2"]) (cases r; auto)
qed

lemmas example_defs =
  example_env_def example_loads_def example_inputs_def ready_state_def fresh_state_def
  reset_session_state_def SUCCESS_BODY_def ERROR_BODY_def INCOMPLETE_ERROR_BODY_def HTML_BODY_def
  NULL_CONTENT_BODY_def SUGGESTIONS_BODY_def

lemma str_int_503: "str_int 503 = ''503''"
  by (simp add: str_int_def str_nat.simps digit_char_def)

lemma str_int_400: "str_int 400 = ''400''"
  by (simp add: str_int_def str_nat.simps digit_char_def)

lemma str_nat_3: "str_nat 3 = ''3''"
  by (simp add: str_nat.simps digit_char_def)

lemma cache_hit:
  "map_of (cache t) sql = Some v \<Longrightarrow>
   get_query_exec_result env sql t =
     (Return \<lparr>obj_id = objects t, obj_value = v\<rparr>, t\<lparr>objects := Suc (objects t)\<rparr>)"
  by (simp add: get_query_exec_result_def cache_data_def)

lemma cache_miss:
  assumes "map_of (cache s) sql = None"
  shows "sql_log (snd (get_query_exec_result env sql s)) = sql_log s @ [sql]"
    and "session_sql env (length (sql_log s)) sql = Table df \<Longrightarrow>
         get_query_exec_result env sql s =
           (Return \<lparr>obj_id = objects s, obj_value = (Some df, None)\<rparr>,
            s\<lparr>sql_log := sql_log s @ [sql], objects := Suc (objects s),
              cache := (sql, (Some df, None)) # cache s\<rparr>)"
    and "session_sql env (length (sql_log s)) sql = SnowparkSQLException e \<Longrightarrow>
         get_query_exec_result env sql s =
           (Return \<lparr>obj_id = objects s, obj_value = (None, Some e)\<rparr>,
            s\<lparr>sql_log := sql_log s @ [sql], objects := Suc (objects s),
              cache := (sql, (None, Some e)) # cache s\<rparr>)"
  using assms
  by (simp_all add: get_query_exec_result_def cache_data_def run_query_def Let_def
      split: sql_outcome.splits)

lemma get_query_exec_result_keeps_entries:
  assumes "map_of (cache s) sql = Some v"
  shows "map_of (cache (snd (get_query_exec_result env sql' s))) sql = Some v"
proof (cases "map_of (cache s) sql'")
  case None
  with assms have "sql' \<noteq> sql" by auto
  with None assms show ?thesis
    by (simp add: get_query_exec_result_def cache_data_def run_query_def Let_def
        split: sql_outcome.splits)
next
  case (Some x)
  with assms show ?thesis
    by (simp add: get_query_exec_result_def cache_data_def)
qed

lemma get_query_exec_result_stores:
  assumes "get_query_exec_result env sql s = (Return obj, s1)"
  shows "map_of (cache s1) sql = Some (obj_value obj)"
    and "obj_id obj < objects s1"
    and "sql_log s1 = (if map_of (cache s) sql = None then sql_log s @ [sql] else sql_log s)"
proof -
  have "map_of (cache s1) sql = Some (obj_value obj) \<and> obj_id obj < objects s1 \<and>
      sql_log s1 = (if map_of (cache s) sql = None then sql_log s @ [sql] else sql_log s)"
  proof (cases "map_of (cache s) sql")
    case None
    with assms show ?thesis
      by (auto simp: get_query_exec_result_def cache_data_def run_query_def Let_def
          split: sql_outcome.splits)
  next
    case (Some x)
    with assms show ?thesis
      by (auto simp: get_query_exec_result_def cache_data_def)
  qed
  then show "map_of (cache s1) sql = Some (obj_value obj)"
    and "obj_id obj < objects s1"
    and "sql_log s1 = (if map_of (cache s) sql = None then sql_log s @ [sql] else sql_log s)"
    by simp_all
qed

lemma first_query:
  "get_query_exec_result (example_env 200 SUCCESS_BODY) (JStr ''SELECT 1'') ready_state =
     (Return \<lparr>obj_id = 0, obj_value = (Some first_table, None)\<rparr>, after_first_query)"
  by (simp add: get_query_exec_result_def cache_data_def run_query_def Let_def example_defs
      first_table_def after_first_query_def)

lemma script_run_toasts:
  "filter is_toast (screen (snd (script_run env chg inp s))) =
     (if fst (script_run env chg inp s) = Return () \<and> fire_API_error_notify s = Some True
      then [Toast ''An API error has occured!''] else [])"
  "fst (script_run env chg inp s) = Return () \<Longrightarrow> fire_API_error_notify s = Some True \<Longrightarrow>
     fire_API_error_notify (snd (script_run env chg inp s)) = Some False"
  "fire_API_error_notify s \<noteq> Some True \<Longrightarrow> fst (script_run env chg inp s) = Return () \<Longrightarrow>
     fire_API_error_notify (snd (script_run env chg inp s)) = fire_API_error_notify s"
proof -
  let ?s0 = "(if chg then reset_session_state s else s)\<lparr>screen := []\<rparr>"
  have s0: "fire_API_error_notify ?s0 = fire_API_error_notify s" "filter is_toast (screen ?s0) = []"
    by simp_all
  have run: "script_run env chg inp s = main env inp ?s0"
    by (simp add: script_run_def)
  from main_cases [of inp ?s0 env]
  consider (ret) t where "main env inp ?s0 = (Return (), handle_error_notifications t)"
      "fire_API_error_notify t = fire_API_error_notify s" "filter is_toast (screen t) = []"
    | (raised) e s' where "main env inp ?s0 = (Raise e, s')" "filter is_toast (screen s') = []"
    | (rerun) s' where "main env inp ?s0 = (Rerun, s')" "filter is_toast (screen s') = []"
    unfolding s0 by blast
  then have "filter is_toast (screen (snd (script_run env chg inp s))) =
     (if fst (script_run env chg inp s) = Return () \<and> fire_API_error_notify s = Some True
      then [Toast ''An API error has occured!''] else []) \<and>
    (fst (script_run env chg inp s) = Return () \<longrightarrow> fire_API_error_notify s = Some True \<longrightarrow>
     fire_API_error_notify (snd (script_run env chg inp s)) = Some False) \<and>
    (fire_API_error_notify s \<noteq> Some True \<longrightarrow> fst (script_run env chg inp s) = Return () \<longrightarrow>
     fire_API_error_notify (snd (script_run env chg inp s)) = fire_API_error_notify s)"
  proof cases
    case ret
    then show ?thesis
      by (simp add: run handle_error_notifications_def is_toast_def)
  next
    case raised
    then show ?thesis by (simp add: run)
  next
    case rerun
    then show ?thesis by (simp add: run)
  qed
  then show
    "filter is_toast (screen (snd (script_run env chg inp s))) =
     (if fst (script_run env chg inp s) = Return () \<and> fire_API_error_notify s = Some True
      then [Toast ''An API error has occured!''] else [])"
    "fst (script_run env chg inp s) = Return () \<Longrightarrow> fire_API_error_notify s = Some True \<Longrightarrow>
     fire_API_error_notify (snd (script_run env chg inp s)) = Some False"
    "fire_API_error_notify s \<noteq> Some True \<Longrightarrow> fst (script_run env chg inp s) = Return () \<Longrightarrow>
     fire_API_error_notify (snd (script_run env chg inp s)) = fire_API_error_notify s"
    by blast+
qed

lemma after_api_error_flag: "fire_API_error_notify after_api_error = Some True"
  unfolding after_api_error_def by code_simp

lemma after_api_error_run:
  "fst (script_run (example_env 200 SUCCESS_BODY) False example_inputs after_api_error) = Return ()"
  unfolding after_api_error_def by code_simp

lemma example_reply_ok:
  "\<forall>n request. reply_ok (example_env 200 SUCCESS_BODY)
     (send_snow_api_request (example_env 200 SUCCESS_BODY) n request)"
  by (simp add: reply_ok_def example_defs getitem_def is_Inr_def)

section \<open>Properties\<close>

text \<open>
  C5. \<^verbatim>\<open>reset_session_state\<close> sets the messages to the empty list and the active suggestion
  to \<^verbatim>\<open>None\<close> whatever the state was, and resetting twice gives the state that resetting
  once gives.
\<close>

theorem reset_session_state_clears_and_is_idempotent:
  "messages (reset_session_state s) = Some [] \<and>
   active_suggestion (reset_session_state s) = Some JNull \<and>
   reset_session_state (reset_session_state s) = reset_session_state s"
  by (simp add: reset_session_state_def)

text \<open>
  C2 (as amended). When the API reply has a status below 400 and its body is JSON that has
  \<^verbatim>\<open>message.content\<close> and \<^verbatim>\<open>request_id\<close>, \<^verbatim>\<open>get_analyst_response\<close> returns the parsed body
  with the error message \<^verbatim>\<open>None\<close>, and \<^verbatim>\<open>process_user_input\<close> ends with the rerun after
  appending the user message and an analyst message whose role is \<^verbatim>\<open>analyst\<close>, whose content
  is exactly the body's \<^verbatim>\<open>message.content\<close> and whose request id is the body's
  \<^verbatim>\<open>request_id\<close>; the notification flag is left as it was.
\<close>

theorem process_user_input_success:
  assumes "messages s = Some ms"
    and "selected_semantic_model_path s = Some path"
    and "reply = send_snow_api_request env (length (api_log s)) (analyst_request (ms @ [user_message prompt]) path)"
    and "resp_status reply < 400"
    and "json_loads env (resp_content reply) = Inr body"
    and "getitem body ''message'' = Inr m"
    and "getitem m ''content'' = Inr c"
    and "getitem body ''request_id'' = Inr rid"
  shows "process_user_input env inp prompt s =
           (Rerun, (asking ms prompt s)
              \<lparr>messages := Some (ms @
                 [\<lparr>role = ''user'',
                   content = JArr [JObj [(''type'', JStr ''text''), (''text'', prompt)]],
                   request_id = None\<rparr>,
                  \<lparr>role = ''analyst'', content = c, request_id = Some rid\<rparr>]),
               api_log := api_log s @ [analyst_request (ms @ [user_message prompt]) path]\<rparr>)
         \<and> fire_API_error_notify (snd (process_user_input env inp prompt s)) = fire_API_error_notify s
         \<and> get_analyst_response env (ms @ [user_message prompt]) (asking ms prompt s) =
             (Return (body, None),
              (asking ms prompt s)
                \<lparr>api_log := api_log s @ [analyst_request (ms @ [user_message prompt]) path]\<rparr>)"
proof -
  note t = pui_success [OF assms, of inp]
  have g: "get_analyst_response env (ms @ [user_message prompt]) (asking ms prompt s) =
      (Return (body, None), (asking ms prompt s)\<lparr>api_log := api_log s @ [analyst_request (ms @ [user_message prompt]) path]\<rparr>)"
    using assms by (simp add: get_analyst_response_success asking_def)
  from t g show ?thesis
    by (simp add: user_message_def asking_def)
qed

text \<open>The success body of the examples, on the session after a reset.\<close>

theorem process_user_input_success_witness:
  "messages ready_state = Some [] \<and>
   selected_semantic_model_path ready_state =
     Some ''IA_CORTEX.CORTEX_SCHEMA.RAW_DATA/elden_modelo_semantico.yaml'' \<and>
   resp_status (send_snow_api_request (example_env 200 SUCCESS_BODY) 0
      (analyst_request [user_message (JStr ''hi'')]
         ''IA_CORTEX.CORTEX_SCHEMA.RAW_DATA/elden_modelo_semantico.yaml'')) < 400 \<and>
   fst (process_user_input (example_env 200 SUCCESS_BODY) example_inputs (JStr ''hi'') ready_state) = Rerun \<and>
   messages (snd (process_user_input (example_env 200 SUCCESS_BODY) example_inputs (JStr ''hi'') ready_state)) =
     Some [\<lparr>role = ''user'',
            content = JArr [JObj [(''type'', JStr ''text''), (''text'', JStr ''hi'')]],
            request_id = None\<rparr>,
           \<lparr>role = ''analyst'',
            content = JArr [JObj [(''type'', JStr ''text''), (''text'', JStr ''hola'')]],
            request_id = Some (JStr ''r-1'')\<rparr>] \<and>
   fire_API_error_notify (snd (process_user_input (example_env 200 SUCCESS_BODY) example_inputs (JStr ''hi'') ready_state)) = None"
  using process_user_input_success [of ready_state "[]"
      "''IA_CORTEX.CORTEX_SCHEMA.RAW_DATA/elden_modelo_semantico.yaml''"
      "\<lparr>resp_status = 200, resp_content = SUCCESS_BODY\<rparr>"
      "example_env 200 SUCCESS_BODY" "JStr ''hi''"
      "JObj [(''message'', JObj [(''content'', JArr [JObj [(''type'', JStr ''text''), (''text'', JStr ''hola'')]])]),
             (''request_id'', JStr ''r-1'')]"
      "JObj [(''content'', JArr [JObj [(''type'', JStr ''text''), (''text'', JStr ''hola'')]])]"
      "JArr [JObj [(''type'', JStr ''text''), (''text'', JStr ''hola'')]]"
      "JStr ''r-1''" example_inputs]
  by (simp add: example_defs getitem_def asking_def user_message_def)

text \<open>
  C2 as stated fails: a reply with status 399 is classified as a success by its status
  alone; with the error body of the examples, whose \<^verbatim>\<open>message\<close> is a string, building the
  analyst message raises and no analyst message is appended.
\<close>

theorem process_user_input_success_counterexample:
  "resp_status (send_snow_api_request (example_env 399 ERROR_BODY) 0
      (analyst_request [user_message (JStr ''hi'')]
         ''IA_CORTEX.CORTEX_SCHEMA.RAW_DATA/elden_modelo_semantico.yaml'')) < 400 \<and>
   messages ready_state = Some [] \<and>
   fst (process_user_input (example_env 399 ERROR_BODY) example_inputs (JStr ''hi'') ready_state) =
     Raise TypeError \<and>
   messages (snd (process_user_input (example_env 399 ERROR_BODY) example_inputs (JStr ''hi'') ready_state)) =
     Some [\<lparr>role = ''user'',
            content = JArr [JObj [(''type'', JStr ''text''), (''text'', JStr ''hi'')]],
            request_id = None\<rparr>]"
  by code_simp

text \<open>
  C3 (as amended). When the API reply has a status of 400 or more and its body is JSON
  that has \<^verbatim>\<open>request_id\<close>, \<^verbatim>\<open>error_code\<close> and \<^verbatim>\<open>message\<close>, the analyst message appended has
  exactly one block, a text block, whose string contains the status code in decimal, the
  request id, the error code and the message of the body (the strings themselves when
  they are strings), and the notification flag is set to \<^verbatim>\<open>True\<close>.
\<close>

theorem process_user_input_api_error:
  assumes "messages s = Some ms"
    and "selected_semantic_model_path s = Some path"
    and "reply = send_snow_api_request env (length (api_log s)) (analyst_request (ms @ [user_message prompt]) path)"
    and "resp_status reply \<ge> 400"
    and "json_loads env (resp_content reply) = Inr body"
    and "getitem body ''request_id'' = Inr rid"
    and "getitem body ''error_code'' = Inr code"
    and "getitem body ''message'' = Inr msg"
    and "txt = error_msg_text (py_repr env) (resp_status reply) rid code msg"
  shows "process_user_input env inp prompt s =
           (Rerun, (asking ms prompt s)
              \<lparr>messages := Some (ms @
                 [\<lparr>role = ''user'',
                   content = JArr [JObj [(''type'', JStr ''text''), (''text'', prompt)]],
                   request_id = None\<rparr>,
                  \<lparr>role = ''analyst'',
                   content = JArr [JObj [(''type'', JStr ''text''), (''text'', JStr txt)]],
                   request_id = Some rid\<rparr>]),
               fire_API_error_notify := Some True,
               api_log := api_log s @ [analyst_request (ms @ [user_message prompt]) path]\<rparr>)
         \<and> sublist (str_int (resp_status reply)) txt
         \<and> int (decimal_value (str_int (resp_status reply))) = resp_status reply
         \<and> set (str_int (resp_status reply)) \<subseteq> set ''0123456789''
         \<and> hd (str_int (resp_status reply)) \<noteq> CHR ''0''
         \<and> sublist (py_str (py_repr env) rid) txt
         \<and> sublist (py_str (py_repr env) code) txt
         \<and> sublist (py_str (py_repr env) msg) txt
         \<and> (\<forall>r. rid = JStr r \<longrightarrow> sublist r txt)
         \<and> (\<forall>r. code = JStr r \<longrightarrow> sublist r txt)
         \<and> (\<forall>r. msg = JStr r \<longrightarrow> sublist r txt)"
proof -
  note t = pui_api_error [OF assms, of inp]
  have nn: "0 \<le> resp_status reply" "resp_status reply \<noteq> 0"
    using assms(4) by simp_all
  note d = str_int_decimal [OF nn(1)]
  have strs: "(\<forall>r. rid = JStr r \<longrightarrow> sublist r txt)" "(\<forall>r. code = JStr r \<longrightarrow> sublist r txt)"
    "(\<forall>r. msg = JStr r \<longrightarrow> sublist r txt)"
    using t by (auto simp: py_str_def)
  from t d(1,2) d(3) [OF nn(2)] strs show ?thesis
    by (simp add: user_message_def)
qed

text \<open>The error body of the examples with status 400 and with status 503.\<close>

theorem process_user_input_api_error_witness:
  "messages ready_state = Some [] \<and>
   resp_status (send_snow_api_request (example_env 400 ERROR_BODY) 0
      (analyst_request [user_message (JStr ''hi'')]
         ''IA_CORTEX.CORTEX_SCHEMA.RAW_DATA/elden_modelo_semantico.yaml'')) \<ge> 400 \<and>
   fst (process_user_input (example_env 400 ERROR_BODY) example_inputs (JStr ''hi'') ready_state) = Rerun \<and>
   messages (snd (process_user_input (example_env 400 ERROR_BODY) example_inputs (JStr ''hi'') ready_state)) =
     Some [\<lparr>role = ''user'',
            content = JArr [JObj [(''type'', JStr ''text''), (''text'', JStr ''hi'')]],
            request_id = None\<rparr>,
           \<lparr>role = ''analyst'',
            content = JArr [JObj [(''type'', JStr ''text''),
               (''text'', JStr (error_msg_text (\<lambda>v. ''<repr>'') 400 (JStr ''r-2'') (JStr ''390142'') (JStr ''bad request'')))]],
            request_id = Some (JStr ''r-2'')\<rparr>] \<and>
   fire_API_error_notify (snd (process_user_input (example_env 400 ERROR_BODY) example_inputs (JStr ''hi'') ready_state)) = Some True \<and>
   sublist ''400'' (error_msg_text (\<lambda>v. ''<repr>'') 400 (JStr ''r-2'') (JStr ''390142'') (JStr ''bad request'')) \<and>
   sublist ''r-2'' (error_msg_text (\<lambda>v. ''<repr>'') 400 (JStr ''r-2'') (JStr ''390142'') (JStr ''bad request'')) \<and>
   sublist ''390142'' (error_msg_text (\<lambda>v. ''<repr>'') 400 (JStr ''r-2'') (JStr ''390142'') (JStr ''bad request'')) \<and>
   sublist ''bad request'' (error_msg_text (\<lambda>v. ''<repr>'') 400 (JStr ''r-2'') (JStr ''390142'') (JStr ''bad request'')) \<and>
   sublist ''503'' (error_msg_text (\<lambda>v. ''<repr>'') 503 (JStr ''r-2'') (JStr ''390142'') (JStr ''bad request'')) \<and>
   messages (snd (process_user_input (example_env 503 ERROR_BODY) example_inputs (JStr ''hi'') ready_state)) =
     Some [\<lparr>role = ''user'',
            content = JArr [JObj [(''type'', JStr ''text''), (''text'', JStr ''hi'')]],
            request_id = None\<rparr>,
           \<lparr>role = ''analyst'',
            content = JArr [JObj [(''type'', JStr ''text''),
               (''text'', JStr (error_msg_text (\<lambda>v. ''<repr>'') 503 (JStr ''r-2'') (JStr ''390142'') (JStr ''bad request'')))]],
            request_id = Some (JStr ''r-2'')\<rparr>]"
  using process_user_input_api_error [of ready_state "[]"
      "''IA_CORTEX.CORTEX_SCHEMA.RAW_DATA/elden_modelo_semantico.yaml''"
      "\<lparr>resp_status = 400, resp_content = ERROR_BODY\<rparr>"
      "example_env 400 ERROR_BODY" "JStr ''hi''"
      "JObj [(''request_id'', JStr ''r-2''), (''error_code'', JStr ''390142''),
             (''message'', JStr ''bad request'')]"
      "JStr ''r-2''" "JStr ''390142''" "JStr ''bad request''"
      "error_msg_text (\<lambda>v. ''<repr>'') 400 (JStr ''r-2'') (JStr ''390142'') (JStr ''bad request'')"
      example_inputs]
    process_user_input_api_error [of ready_state "[]"
      "''IA_CORTEX.CORTEX_SCHEMA.RAW_DATA/elden_modelo_semantico.yaml''"
      "\<lparr>resp_status = 503, resp_content = ERROR_BODY\<rparr>"
      "example_env 503 ERROR_BODY" "JStr ''hi''"
      "JObj [(''request_id'', JStr ''r-2''), (''error_code'', JStr ''390142''),
             (''message'', JStr ''bad request'')]"
      "JStr ''r-2''" "JStr ''390142''" "JStr ''bad request''"
      "error_msg_text (\<lambda>v. ''<repr>'') 503 (JStr ''r-2'') (JStr ''390142'') (JStr ''bad request'')"
      example_inputs]
  by (simp add: example_defs getitem_def asking_def str_int_400 str_int_503 py_str_def user_message_def)

text \<open>
  C3 as stated fails: with status 404 and the success body of the examples, which has no
  \<^verbatim>\<open>error_code\<close>, formatting the error message raises; no analyst message is appended and
  the flag is not set.
\<close>

theorem process_user_input_api_error_counterexample:
  "resp_status (send_snow_api_request (example_env 404 SUCCESS_BODY) 0
      (analyst_request [user_message (JStr ''hi'')]
         ''IA_CORTEX.CORTEX_SCHEMA.RAW_DATA/elden_modelo_semantico.yaml'')) \<ge> 400 \<and>
   messages ready_state = Some [] \<and>
   fst (process_user_input (example_env 404 SUCCESS_BODY) example_inputs (JStr ''hi'') ready_state) =
     Raise (KeyError ''error_code'') \<and>
   messages (snd (process_user_input (example_env 404 SUCCESS_BODY) example_inputs (JStr ''hi'') ready_state)) =
     Some [\<lparr>role = ''user'',
            content = JArr [JObj [(''type'', JStr ''text''), (''text'', JStr ''hi'')]],
            request_id = None\<rparr>] \<and>
   fire_API_error_notify (snd (process_user_input (example_env 404 SUCCESS_BODY) example_inputs (JStr ''hi'') ready_state)) \<noteq>
     Some True"
  by code_simp

text \<open>
  C10. On the error path (status of 400 or more) the keys \<^verbatim>\<open>request_id\<close>, \<^verbatim>\<open>error_code\<close>
  and \<^verbatim>\<open>message\<close> of the parsed body are read without a check: when the body is a
  dictionary that lacks one of them, \<^verbatim>\<open>process_user_input\<close> raises the \<^verbatim>\<open>KeyError\<close> of the
  first missing key, after the user message has been appended and before any analyst
  message or notification flag is set.
\<close>

theorem process_user_input_error_body_missing_key:
  assumes "messages s = Some ms"
    and "selected_semantic_model_path s = Some path"
    and "reply = send_snow_api_request env (length (api_log s)) (analyst_request (ms @ [user_message prompt]) path)"
    and "resp_status reply \<ge> 400"
    and "json_loads env (resp_content reply) = Inr (JObj kvs)"
    and "map_of kvs ''request_id'' = None \<or> map_of kvs ''error_code'' = None \<or> map_of kvs ''message'' = None"
  shows "process_user_input env inp prompt s =
           (Raise (KeyError (if map_of kvs ''request_id'' = None then ''request_id''
                             else if map_of kvs ''error_code'' = None then ''error_code''
                             else ''message'')),
            (asking ms prompt s)\<lparr>api_log := api_log s @ [analyst_request (ms @ [user_message prompt]) path]\<rparr>)"
  using assms by (rule pui_missing_key)

text \<open>A 503 reply whose body has only \<^verbatim>\<open>message\<close>.\<close>

theorem process_user_input_error_body_missing_key_witness:
  "messages ready_state = Some [] \<and>
   resp_status (send_snow_api_request (example_env 503 INCOMPLETE_ERROR_BODY) 0
      (analyst_request [user_message (JStr ''hi'')]
         ''IA_CORTEX.CORTEX_SCHEMA.RAW_DATA/elden_modelo_semantico.yaml'')) \<ge> 400 \<and>
   json_loads (example_env 503 INCOMPLETE_ERROR_BODY) INCOMPLETE_ERROR_BODY =
     Inr (JObj [(''message'', JStr ''Service unavailable'')]) \<and>
   map_of [(''message'', JStr ''Service unavailable'')] ''request_id'' = None \<and>
   fst (process_user_input (example_env 503 INCOMPLETE_ERROR_BODY) example_inputs (JStr ''hi'') ready_state) =
     Raise (KeyError ''request_id'') \<and>
   messages (snd (process_user_input (example_env 503 INCOMPLETE_ERROR_BODY) example_inputs (JStr ''hi'') ready_state)) =
     Some [user_message (JStr ''hi'')] \<and>
   fire_API_error_notify (snd (process_user_input (example_env 503 INCOMPLETE_ERROR_BODY) example_inputs (JStr ''hi'') ready_state)) = None"
  using process_user_input_error_body_missing_key [of ready_state "[]"
      "''IA_CORTEX.CORTEX_SCHEMA.RAW_DATA/elden_modelo_semantico.yaml''"
      "\<lparr>resp_status = 503, resp_content = INCOMPLETE_ERROR_BODY\<rparr>"
      "example_env 503 INCOMPLETE_ERROR_BODY" "JStr ''hi''"
      "[(''message'', JStr ''Service unavailable'')]" example_inputs]
  by (simp add: example_defs asking_def)

text \<open>
  C1 as stated fails: a reply with an empty body is not JSON, \<^verbatim>\<open>json.loads\<close> raises, and the
  input has appended one message, not two.
\<close>

theorem process_user_input_one_turn_counterexample:
  "messages ready_state = Some [] \<and>
   process_user_input (example_env 200 []) example_inputs (JStr ''hi'') ready_state =
     (Raise JSONDecodeError,
      (asking [] (JStr ''hi'') ready_state)
        \<lparr>api_log := [analyst_request [user_message (JStr ''hi'')]
            ''IA_CORTEX.CORTEX_SCHEMA.RAW_DATA/elden_modelo_semantico.yaml'']\<rparr>) \<and>
   messages (snd (process_user_input (example_env 200 []) example_inputs (JStr ''hi'') ready_state)) =
     Some [user_message (JStr ''hi'')]"
  by (simp add: process_user_input_def Let_def display_user_message and_then_def
      get_analyst_response_def example_defs asking_def)

text \<open>
  C4 (as amended). When the reply is JSON with the keys read on its path,
  \<^verbatim>\<open>process_user_input\<close> ends with the rerun and raises nothing, and a status of 400 or more
  is shown as an analyst message of one text block together with the notification flag.
  When the body is not JSON, the exception of \<^verbatim>\<open>json.loads\<close> leaves \<^verbatim>\<open>process_user_input\<close>:
  nothing catches it. The session state then holds the earlier messages and the user
  message, and the flag is as it was.
\<close>

theorem process_user_input_failures:
  assumes "messages s = Some ms"
    and "selected_semantic_model_path s = Some path"
    and "reply = send_snow_api_request env (length (api_log s)) (analyst_request (ms @ [user_message prompt]) path)"
  shows "(reply_ok env reply \<longrightarrow>
           (\<exists>a s'. process_user_input env inp prompt s = (Rerun, s') \<and>
              messages s' = Some (ms @ [user_message prompt, a]) \<and> role a = ''analyst'' \<and>
              (resp_status reply \<ge> 400 \<longrightarrow>
                 fire_API_error_notify s' = Some True \<and>
                 (\<exists>txt. content a = JArr [JObj [(''type'', JStr ''text''), (''text'', JStr txt)]])))) \<and>
         (\<forall>e. json_loads env (resp_content reply) = Inl e \<longrightarrow>
            process_user_input env inp prompt s =
              (Raise e, (asking ms prompt s)
                 \<lparr>api_log := api_log s @ [analyst_request (ms @ [user_message prompt]) path]\<rparr>) \<and>
            messages (snd (process_user_input env inp prompt s)) = Some (ms @ [user_message prompt]) \<and>
            fire_API_error_notify (snd (process_user_input env inp prompt s)) = fire_API_error_notify s)"
proof -
  have a: "\<exists>a s'. process_user_input env inp prompt s = (Rerun, s') \<and>
              messages s' = Some (ms @ [user_message prompt, a]) \<and> role a = ''analyst'' \<and>
              (resp_status reply \<ge> 400 \<longrightarrow>
                 fire_API_error_notify s' = Some True \<and>
                 (\<exists>txt. content a = JArr [JObj [(''type'', JStr ''text''), (''text'', JStr txt)]]))"
    if "reply_ok env reply"
  proof -
    from that have "reply_ok env (send_snow_api_request env (length (api_log s))
        (analyst_request (ms @ [user_message prompt]) path))"
      by (simp add: assms(3))
    from process_user_input_reply_ok [OF assms(1,2) this, of inp]
    show ?thesis unfolding assms(3) by (auto split: if_splits)
  qed
  have b: "process_user_input env inp prompt s =
              (Raise e, (asking ms prompt s)
                 \<lparr>api_log := api_log s @ [analyst_request (ms @ [user_message prompt]) path]\<rparr>) \<and>
            messages (snd (process_user_input env inp prompt s)) = Some (ms @ [user_message prompt]) \<and>
            fire_API_error_notify (snd (process_user_input env inp prompt s)) = fire_API_error_notify s"
    if "json_loads env (resp_content reply) = Inl e" for e
  proof -
    have g: "get_analyst_response env (ms @ [user_message prompt]) (asking ms prompt s) =
        (Raise e, (asking ms prompt s)\<lparr>api_log := api_log s @ [analyst_request (ms @ [user_message prompt]) path]\<rparr>)"
      using that assms get_analyst_response_parse_failure [of "asking ms prompt s" path env "ms @ [user_message prompt]" e]
      by (simp add: asking_def)
    have "process_user_input env inp prompt s =
        (Raise e, (asking ms prompt s)\<lparr>api_log := api_log s @ [analyst_request (ms @ [user_message prompt]) path]\<rparr>)"
      by (simp add: process_user_input_unfold [OF assms(1)] and_then_def g)
    then show ?thesis by (simp add: asking_def)
  qed
  from a b show ?thesis by blast
qed

text \<open>The error body with status 400, and an HTML page with status 502.\<close>

theorem process_user_input_failures_witness:
  "messages ready_state = Some [] \<and>
   reply_ok (example_env 400 ERROR_BODY) \<lparr>resp_status = 400, resp_content = ERROR_BODY\<rparr> \<and>
   (\<exists>a s'. process_user_input (example_env 400 ERROR_BODY) example_inputs (JStr ''hi'') ready_state = (Rerun, s') \<and>
      messages s' = Some [user_message (JStr ''hi''), a] \<and> role a = ''analyst'' \<and>
      fire_API_error_notify s' = Some True \<and>
      (\<exists>txt. content a = JArr [JObj [(''type'', JStr ''text''), (''text'', JStr txt)]])) \<and>
   json_loads (example_env 502 HTML_BODY) HTML_BODY = Inl JSONDecodeError \<and>
   fst (process_user_input (example_env 502 HTML_BODY) example_inputs (JStr ''hi'') ready_state) =
     Raise JSONDecodeError \<and>
   messages (snd (process_user_input (example_env 502 HTML_BODY) example_inputs (JStr ''hi'') ready_state)) =
     Some [user_message (JStr ''hi'')]"
proof -
  have h1: "messages ready_state = Some []"
    and h2: "selected_semantic_model_path ready_state =
      Some ''IA_CORTEX.CORTEX_SCHEMA.RAW_DATA/elden_modelo_semantico.yaml''"
    by (simp_all add: example_defs)
  have r1: "\<lparr>resp_status = 400, resp_content = ERROR_BODY\<rparr> =
      send_snow_api_request (example_env 400 ERROR_BODY) (length (api_log ready_state))
        (analyst_request ([] @ [user_message (JStr ''hi'')]) ''IA_CORTEX.CORTEX_SCHEMA.RAW_DATA/elden_modelo_semantico.yaml'')"
    by (simp add: example_env_def)
  have r2: "\<lparr>resp_status = 502, resp_content = HTML_BODY\<rparr> =
      send_snow_api_request (example_env 502 HTML_BODY) (length (api_log ready_state))
        (analyst_request ([] @ [user_message (JStr ''hi'')]) ''IA_CORTEX.CORTEX_SCHEMA.RAW_DATA/elden_modelo_semantico.yaml'')"
    by (simp add: example_env_def)
  have ok: "reply_ok (example_env 400 ERROR_BODY) \<lparr>resp_status = 400, resp_content = ERROR_BODY\<rparr>"
    by (simp add: reply_ok_def example_defs getitem_def is_Inr_def)
  have bad: "json_loads (example_env 502 HTML_BODY) HTML_BODY = Inl JSONDecodeError"
    by (simp add: example_defs)
  note t1 = process_user_input_failures [OF h1 h2 r1, of example_inputs, THEN conjunct1, rule_format, OF ok]
  have bad': "json_loads (example_env 502 HTML_BODY)
      (resp_content \<lparr>resp_status = 502, resp_content = HTML_BODY\<rparr>) = Inl JSONDecodeError"
    using bad by simp
  note t2 = process_user_input_failures [OF h1 h2 r2, of example_inputs, THEN conjunct2, rule_format, OF bad']
  from t1 have a: "\<exists>a s'. process_user_input (example_env 400 ERROR_BODY) example_inputs (JStr ''hi'') ready_state = (Rerun, s') \<and>
      messages s' = Some [user_message (JStr ''hi''), a] \<and> role a = ''analyst'' \<and>
      fire_API_error_notify s' = Some True \<and>
      (\<exists>txt. content a = JArr [JObj [(''type'', JStr ''text''), (''text'', JStr txt)]])"
    by auto
  have b: "fst (process_user_input (example_env 502 HTML_BODY) example_inputs (JStr ''hi'') ready_state) =
     Raise JSONDecodeError"
    "messages (snd (process_user_input (example_env 502 HTML_BODY) example_inputs (JStr ''hi'') ready_state)) =
     Some [user_message (JStr ''hi'')]"
    using t2 [THEN conjunct1] t2 [THEN conjunct2, THEN conjunct1] by simp_all
  from h1 ok a bad b show ?thesis by blast
qed

text \<open>C4 as stated fails: the HTML page makes the exception leave \<^verbatim>\<open>process_user_input\<close>.\<close>

theorem process_user_input_exception_counterexample:
  "fst (process_user_input (example_env 502 HTML_BODY) example_inputs (JStr ''hi'') ready_state) =
     Raise JSONDecodeError"
  by (simp add: process_user_input_def Let_def display_user_message and_then_def
      get_analyst_response_def example_defs)

text \<open>
  C6. With fewer than two columns \<^verbatim>\<open>display_charts_tab\<close> only writes the notice and draws no
  axis selector. With two or more it draws the X selector over the set of all columns and
  then the Y selector over that set without the column chosen for X, so the X choice is
  not among the Y options.
\<close>

theorem display_charts_tab_axis_options:
  "(length (columns df) < 2 \<longrightarrow>
      display_charts_tab inp df i s = draw (Write ''Al menos 2 columnas requeridas'') s \<and>
      filter is_axis_selector (screen (display_charts_tab inp df i s)) = filter is_axis_selector (screen s)) \<and>
   (length (columns df) \<ge> 2 \<longrightarrow>
      (\<exists>rest. screen (display_charts_tab inp df i s) =
         screen s @
         [Selectbox ''Eje X'' (set (columns df)) (''x_col_select_'' @ str_nat i),
          Selectbox ''Eje Y''
            (set (columns df) - set_option (selectbox_value inp (''x_col_select_'' @ str_nat i)))
            (''y_col_select_'' @ str_nat i)] @ rest) \<and>
      set_option (selectbox_value inp (''x_col_select_'' @ str_nat i)) \<inter>
        (set (columns df) - set_option (selectbox_value inp (''x_col_select_'' @ str_nat i))) = {})"
  by (auto simp: display_charts_tab_def Let_def is_axis_selector_def)

text \<open>One column, and two columns with \<^verbatim>\<open>MONTH\<close> chosen for X.\<close>

theorem display_charts_tab_axis_options_witness:
  "length (columns one_column) < 2 \<and>
   display_charts_tab choose_month one_column 3 ready_state =
     draw (Write ''Al menos 2 columnas requeridas'') ready_state \<and>
   filter is_axis_selector (screen (display_charts_tab choose_month one_column 3 ready_state)) = [] \<and>
   length (columns two_columns) \<ge> 2 \<and>
   (\<exists>rest. screen (display_charts_tab choose_month two_columns 3 ready_state) =
      [Selectbox ''Eje X'' {''MONTH'', ''TOTAL''} ''x_col_select_3'',
       Selectbox ''Eje Y'' {''TOTAL''} ''y_col_select_3''] @ rest)"
proof -
  have one: "length (columns one_column) < 2" by (simp add: one_column_def)
  have two: "length (columns two_columns) \<ge> 2" by (simp add: two_columns_def)
  note a = display_charts_tab_axis_options [of one_column choose_month 3 ready_state, THEN conjunct1, rule_format, OF one]
  note b = display_charts_tab_axis_options [of two_columns choose_month 3 ready_state, THEN conjunct2, rule_format, OF two]
  have s0: "screen ready_state = []" by (simp add: example_defs)
  have x: "selectbox_value choose_month ''x_col_select_3'' = Some ''MONTH''"
    by (simp add: choose_month_def)
  have yset: "{''MONTH'', ''TOTAL''} - {''MONTH''} = {''TOTAL''}"
    by auto
  have xset: "set (columns two_columns) = {''MONTH'', ''TOTAL''}"
    by (simp add: two_columns_def)
  from b obtain rest where "screen (display_charts_tab choose_month two_columns 3 ready_state) =
      [Selectbox ''Eje X'' {''MONTH'', ''TOTAL''} ''x_col_select_3'',
       Selectbox ''Eje Y'' {''TOTAL''} ''y_col_select_3''] @ rest"
    by (auto simp: s0 x yset xset str_nat_3)
  with a one two s0 show ?thesis by auto
qed

text \<open>
  C7 (as amended). When a call of \<^verbatim>\<open>get_query_exec_result\<close> has returned, a second call
  with the same statement returns an equal result in a new object (a copy of the stored
  value, not the object of the first call) and changes nothing else in the state, so the
  warehouse is not asked again. The first call has asked the warehouse exactly when the
  statement was not in the store. The store is keyed by the statement: a call with another
  statement that is not in the store asks the warehouse, and returns what the warehouse
  answers; and after a call with any other statement the first statement is still answered
  from the store with the same value.
\<close>

theorem get_query_exec_result_memoized:
  assumes "get_query_exec_result env sql s = (Return obj, s1)"
  shows "get_query_exec_result env sql s1 =
           (Return \<lparr>obj_id = objects s1, obj_value = obj_value obj\<rparr>,
            s1\<lparr>objects := Suc (objects s1)\<rparr>) \<and>
         obj_id obj < objects s1 \<and>
         sql_log s1 = (if map_of (cache s) sql = None then sql_log s @ [sql] else sql_log s) \<and>
         (\<forall>sql'. map_of (cache s1) sql' = None \<longrightarrow>
            sql_log (snd (get_query_exec_result env sql' s1)) = sql_log s1 @ [sql'] \<and>
            (\<forall>df. session_sql env (length (sql_log s1)) sql' = Table df \<longrightarrow>
               fst (get_query_exec_result env sql' s1) =
                 Return \<lparr>obj_id = objects s1, obj_value = (Some df, None)\<rparr>) \<and>
            (\<forall>e. session_sql env (length (sql_log s1)) sql' = SnowparkSQLException e \<longrightarrow>
               fst (get_query_exec_result env sql' s1) =
                 Return \<lparr>obj_id = objects s1, obj_value = (None, Some e)\<rparr>)) \<and>
         (\<forall>sql'. get_query_exec_result env sql (snd (get_query_exec_result env sql' s1)) =
                   (Return \<lparr>obj_id = objects (snd (get_query_exec_result env sql' s1)),
                            obj_value = obj_value obj\<rparr>,
                    (snd (get_query_exec_result env sql' s1))
                      \<lparr>objects := Suc (objects (snd (get_query_exec_result env sql' s1)))\<rparr>))"
proof -
  note st = get_query_exec_result_stores [OF assms]
  have a: "get_query_exec_result env sql s1 =
           (Return \<lparr>obj_id = objects s1, obj_value = obj_value obj\<rparr>,
            s1\<lparr>objects := Suc (objects s1)\<rparr>)"
    using st(1) by (rule cache_hit)
  have b: "sql_log (snd (get_query_exec_result env sql' s1)) = sql_log s1 @ [sql'] \<and>
            (\<forall>df. session_sql env (length (sql_log s1)) sql' = Table df \<longrightarrow>
               fst (get_query_exec_result env sql' s1) =
                 Return \<lparr>obj_id = objects s1, obj_value = (Some df, None)\<rparr>) \<and>
            (\<forall>e. session_sql env (length (sql_log s1)) sql' = SnowparkSQLException e \<longrightarrow>
               fst (get_query_exec_result env sql' s1) =
                 Return \<lparr>obj_id = objects s1, obj_value = (None, Some e)\<rparr>)"
    if "map_of (cache s1) sql' = None" for sql'
    using cache_miss [OF that, of env] by simp
  have c: "get_query_exec_result env sql (snd (get_query_exec_result env sql' s1)) =
                   (Return \<lparr>obj_id = objects (snd (get_query_exec_result env sql' s1)),
                            obj_value = obj_value obj\<rparr>,
                    (snd (get_query_exec_result env sql' s1))
                      \<lparr>objects := Suc (objects (snd (get_query_exec_result env sql' s1)))\<rparr>)" for sql'
    using get_query_exec_result_keeps_entries [OF st(1), of env sql'] by (rule cache_hit)
  from a st(2,3) b c show ?thesis by blast
qed

text \<open>
  \<^verbatim>\<open>SELECT 1\<close> twice and then \<^verbatim>\<open>SELECT 2\<close>: the second call returns the first table, which the
  example warehouse would not give again, in a second object; \<^verbatim>\<open>SELECT 2\<close> is run by the
  warehouse and gets its second table.
\<close>

theorem get_query_exec_result_memoized_witness:
  "get_query_exec_result (example_env 200 SUCCESS_BODY) (JStr ''SELECT 1'') ready_state =
     (Return \<lparr>obj_id = 0, obj_value = (Some first_table, None)\<rparr>, after_first_query) \<and>
   get_query_exec_result (example_env 200 SUCCESS_BODY) (JStr ''SELECT 1'') after_first_query =
     (Return \<lparr>obj_id = 1, obj_value = (Some first_table, None)\<rparr>, after_first_query\<lparr>objects := 2\<rparr>) \<and>
   sql_log after_first_query = [JStr ''SELECT 1''] \<and>
   session_sql (example_env 200 SUCCESS_BODY) (length (sql_log after_first_query)) (JStr ''SELECT 1'') =
     Table second_table \<and>
   map_of (cache after_first_query) (JStr ''SELECT 2'') = None \<and>
   sql_log (snd (get_query_exec_result (example_env 200 SUCCESS_BODY) (JStr ''SELECT 2'') after_first_query)) =
     [JStr ''SELECT 1'', JStr ''SELECT 2''] \<and>
   fst (get_query_exec_result (example_env 200 SUCCESS_BODY) (JStr ''SELECT 2'') after_first_query) =
     Return \<lparr>obj_id = 1, obj_value = (Some second_table, None)\<rparr>"
proof -
  note t = get_query_exec_result_memoized [OF first_query]
  have miss: "map_of (cache after_first_query) (JStr ''SELECT 2'') = None"
    by (simp add: after_first_query_def)
  have eng: "session_sql (example_env 200 SUCCESS_BODY) (length (sql_log after_first_query)) (JStr ''SELECT 1'') =
      Table second_table"
    "session_sql (example_env 200 SUCCESS_BODY) (length (sql_log after_first_query)) (JStr ''SELECT 2'') =
      Table second_table"
    by (simp_all add: after_first_query_def example_env_def second_table_def)
  have o: "objects after_first_query = 1" "sql_log after_first_query = [JStr ''SELECT 1'']"
    by (simp_all add: after_first_query_def)
  from t have second: "get_query_exec_result (example_env 200 SUCCESS_BODY) (JStr ''SELECT 1'') after_first_query =
     (Return \<lparr>obj_id = 1, obj_value = (Some first_table, None)\<rparr>, after_first_query\<lparr>objects := 2\<rparr>)"
    by (simp add: o)
  from t miss eng(2) have other:
    "sql_log (snd (get_query_exec_result (example_env 200 SUCCESS_BODY) (JStr ''SELECT 2'') after_first_query)) =
       [JStr ''SELECT 1'', JStr ''SELECT 2'']"
    "fst (get_query_exec_result (example_env 200 SUCCESS_BODY) (JStr ''SELECT 2'') after_first_query) =
       Return \<lparr>obj_id = 1, obj_value = (Some second_table, None)\<rparr>"
    by (simp_all add: o)
  from first_query second o(2) eng(1) miss other show ?thesis by blast
qed

text \<open>
  C7 as stated fails: the two calls with the same statement return two objects, the first
  with identity 0 and the second with identity 1.
\<close>

theorem get_query_exec_result_identity_counterexample:
  "fst (get_query_exec_result (example_env 200 SUCCESS_BODY) (JStr ''SELECT 1'') ready_state) =
     Return \<lparr>obj_id = 0, obj_value = (Some first_table, None)\<rparr> \<and>
   fst (get_query_exec_result (example_env 200 SUCCESS_BODY) (JStr ''SELECT 1'')
          (snd (get_query_exec_result (example_env 200 SUCCESS_BODY) (JStr ''SELECT 1'') ready_state))) =
     Return \<lparr>obj_id = 1, obj_value = (Some first_table, None)\<rparr> \<and>
   fst (get_query_exec_result (example_env 200 SUCCESS_BODY) (JStr ''SELECT 1'')
          (snd (get_query_exec_result (example_env 200 SUCCESS_BODY) (JStr ''SELECT 1'') ready_state))) \<noteq>
   fst (get_query_exec_result (example_env 200 SUCCESS_BODY) (JStr ''SELECT 1'') ready_state)"
  by (simp add: get_query_exec_result_def cache_data_def run_query_def Let_def example_defs
      first_table_def)



text \<open>
  C9. When the notification flag is set, \<^verbatim>\<open>handle_error_notifications\<close> shows the notice and
  sets the flag to \<^verbatim>\<open>False\<close>, and a second call shows nothing more. A script run that
  reaches its end from such a state shows the notice exactly once and leaves the flag
  \<^verbatim>\<open>False\<close>, and the script run after it shows no notice, whatever it does.
\<close>

theorem api_error_notified_once:
  assumes "fire_API_error_notify s = Some True"
  shows "handle_error_notifications s =
           (draw (Toast ''An API error has occured!'') s)\<lparr>fire_API_error_notify := Some False\<rparr> \<and>
         handle_error_notifications (handle_error_notifications s) = handle_error_notifications s \<and>
         (\<forall>env chg inp s'. script_run env chg inp s = (Return (), s') \<longrightarrow>
            filter is_toast (screen s') = [Toast ''An API error has occured!''] \<and>
            fire_API_error_notify s' = Some False \<and>
            (\<forall>env2 chg2 inp2. filter is_toast (screen (snd (script_run env2 chg2 inp2 s'))) = []))"
proof -
  have a: "handle_error_notifications s =
           (draw (Toast ''An API error has occured!'') s)\<lparr>fire_API_error_notify := Some False\<rparr>"
    using assms by (simp add: handle_error_notifications_def)
  have b: "handle_error_notifications (handle_error_notifications s) = handle_error_notifications s"
    using assms by (simp add: handle_error_notifications_def)
  have c: "filter is_toast (screen s') = [Toast ''An API error has occured!''] \<and>
            fire_API_error_notify s' = Some False \<and>
            (\<forall>env2 chg2 inp2. filter is_toast (screen (snd (script_run env2 chg2 inp2 s'))) = [])"
    if run: "script_run env chg inp s = (Return (), s')" for env chg inp s'
  proof -
    from run have r: "fst (script_run env chg inp s) = Return ()" "snd (script_run env chg inp s) = s'"
      by simp_all
    from script_run_toasts(1) [of env chg inp s] r assms
    have t: "filter is_toast (screen s') = [Toast ''An API error has occured!'']" by simp
    from script_run_toasts(2) [of env chg inp s] r assms
    have f: "fire_API_error_notify s' = Some False" by simp
    have "filter is_toast (screen (snd (script_run env2 chg2 inp2 s'))) = []" for env2 chg2 inp2
      using script_run_toasts(1) [of env2 chg2 inp2 s'] f by simp
    with t f show ?thesis by blast
  qed
  from a b c show ?thesis by blast
qed

text \<open>The session after an API error: the next run shows the notice, the run after it does
  not.\<close>

theorem api_error_notified_once_witness:
  "fire_API_error_notify after_api_error = Some True \<and>
   handle_error_notifications after_api_error =
     (draw (Toast ''An API error has occured!'') after_api_error)\<lparr>fire_API_error_notify := Some False\<rparr> \<and>
   fst (script_run (example_env 200 SUCCESS_BODY) False example_inputs after_api_error) = Return () \<and>
   filter is_toast (screen (snd (script_run (example_env 200 SUCCESS_BODY) False example_inputs after_api_error))) =
     [Toast ''An API error has occured!''] \<and>
   filter is_toast (screen (snd (script_run (example_env 200 SUCCESS_BODY) False example_inputs
     (snd (script_run (example_env 200 SUCCESS_BODY) False example_inputs after_api_error))))) = []"
proof -
  note t = api_error_notified_once [OF after_api_error_flag]
  obtain s' where run: "script_run (example_env 200 SUCCESS_BODY) False example_inputs after_api_error = (Return (), s')"
    using after_api_error_run
    by (cases "script_run (example_env 200 SUCCESS_BODY) False example_inputs after_api_error") auto
  from t run have "filter is_toast (screen s') = [Toast ''An API error has occured!'']"
    "filter is_toast (screen (snd (script_run (example_env 200 SUCCESS_BODY) False example_inputs s'))) = []"
    by blast+
  with t run after_api_error_flag after_api_error_run show ?thesis by simp
qed

end
